theory Spec2Isabelle
  imports Main "HOL-Library.Word" "HOL-Library.Monad_Syntax"
begin

unbundle bit_operations_syntax

section \<open>CR95HF driver: frames, transport and ISO14443-A discovery\<close>

text \<open>
  A shallow embedding of \<^verbatim>\<open>src/CR95HF.h\<close> and \<^verbatim>\<open>src/CR95HF.cpp\<close>.
  Bytes are \<open>8 word\<close>, the millisecond counter is a \<open>32 word\<close>. A C array or a
  pointer to bytes is the memory behind it, a function from the index to the byte, so
  that a write at any index (inside the declared capacity or past it) is a value of
  the model. The debug output (\<^verbatim>\<open>log\<close>, \<^verbatim>\<open>logHex\<close>, \<^verbatim>\<open>Serial.printf\<close>) changes no
  value of the driver and is left out.
\<close>

type_synonym u8 = "8 word"
type_synonym u32 = "32 word"
type_synonym bytes = "nat \<Rightarrow> u8"

subsection \<open>Constants of CR95HF.h\<close>

definition CR95HF_CMD_IDN :: u8 where "CR95HF_CMD_IDN = 0x01"
definition CR95HF_CMD_PROTOCOL :: u8 where "CR95HF_CMD_PROTOCOL = 0x02"
definition CR95HF_CMD_SENDRECV :: u8 where "CR95HF_CMD_SENDRECV = 0x04"
definition CR95HF_RSP_SUCCESS :: u8 where "CR95HF_RSP_SUCCESS = 0x00"
definition CR95HF_RSP_DATA :: u8 where "CR95HF_RSP_DATA = 0x80"
definition CR95HF_RSP_TIMEOUT :: u8 where "CR95HF_RSP_TIMEOUT = 0x87"
definition ISO14443A_REQA :: u8 where "ISO14443A_REQA = 0x26"
definition ISO14443A_WUPA :: u8 where "ISO14443A_WUPA = 0x52"
definition ISO14443A_CT :: u8 where "ISO14443A_CT = 0x88"
definition ISO14443A_SEL_CL1 :: u8 where "ISO14443A_SEL_CL1 = 0x93"
definition ISO14443A_SEL_CL2 :: u8 where "ISO14443A_SEL_CL2 = 0x95"
definition ISO14443A_NVB_ANTICOLL :: u8 where "ISO14443A_NVB_ANTICOLL = 0x20"
definition ISO14443A_NVB_SELECT :: u8 where "ISO14443A_NVB_SELECT = 0x70"
definition CR95HF_FLAG_SHORTFRAME :: u8 where "CR95HF_FLAG_SHORTFRAME = 0x07"
definition CR95HF_FLAG_STD :: u8 where "CR95HF_FLAG_STD = 0x08"
definition CR95HF_FLAG_STD_CRC :: u8 where "CR95HF_FLAG_STD_CRC = 0x28"

lemmas cr95hf_consts =
  CR95HF_CMD_IDN_def CR95HF_CMD_PROTOCOL_def CR95HF_CMD_SENDRECV_def
  CR95HF_RSP_SUCCESS_def CR95HF_RSP_DATA_def CR95HF_RSP_TIMEOUT_def
  ISO14443A_REQA_def ISO14443A_WUPA_def ISO14443A_CT_def
  ISO14443A_SEL_CL1_def ISO14443A_SEL_CL2_def
  ISO14443A_NVB_ANTICOLL_def ISO14443A_NVB_SELECT_def
  CR95HF_FLAG_SHORTFRAME_def CR95HF_FLAG_STD_def CR95HF_FLAG_STD_CRC_def

subsection \<open>CR95HF\_Frame\<close>

text \<open>
  \<^verbatim>\<open>uint8_t data[32]; uint8_t len;\<close> The capacity \<^verbatim>\<open>sizeof(data)\<close> is 32.
\<close>

record CR95HF_Frame =
  data :: bytes
  len :: u8

definition sizeof_data :: nat where "sizeof_data = 32"

text \<open>Contents of an uninitialised local or member: the source never reads one
  before writing it.\<close>

definition stack_u8 :: u8 where "stack_u8 = 0"
definition stack_buf :: bytes where "stack_buf = (\<lambda>_. 0)"

text \<open>\<^verbatim>\<open>CR95HF_Frame() : len(0) {}\<close>\<close>

definition new_Frame :: CR95HF_Frame where
  "new_Frame = \<lparr>data = stack_buf, len = 0\<rparr>"

text \<open>\<^verbatim>\<open>void clear() { len = 0; }\<close>\<close>

definition clear :: "CR95HF_Frame \<Rightarrow> CR95HF_Frame" where
  "clear f = f\<lparr>len := 0\<rparr>"

text \<open>\<^verbatim>\<open>void add(uint8_t b) { if (len < sizeof(data)) data[len++] = b; }\<close>\<close>

definition add :: "u8 \<Rightarrow> CR95HF_Frame \<Rightarrow> CR95HF_Frame" where
  "add b f =
     (if unat (len f) < sizeof_data
      then f\<lparr>data := (data f)(unat (len f) := b), len := len f + 1\<rparr>
      else f)"

definition buildIDN :: "CR95HF_Frame \<Rightarrow> CR95HF_Frame" where
  "buildIDN f =
     (let f = clear f;
          f = add CR95HF_CMD_IDN f;
          f = add 0x00 f
      in f)"

definition buildProtocolSelect :: "u8 \<Rightarrow> u8 \<Rightarrow> CR95HF_Frame \<Rightarrow> CR95HF_Frame" where
  "buildProtocolSelect proto param f =
     (let f = clear f;
          f = add CR95HF_CMD_PROTOCOL f;
          f = add 0x02 f;
          f = add proto f;
          f = add param f
      in f)"

text \<open>
  \<^verbatim>\<open>add(rfLen + 1)\<close> converts the \<^verbatim>\<open>int\<close> sum back to \<^verbatim>\<open>uint8_t\<close>: the
  word addition, which wraps at 256. The loop counter \<^verbatim>\<open>i\<close> runs over
  \<open>0 ..< rfLen\<close>.
\<close>

definition buildSendRecv :: "bytes \<Rightarrow> u8 \<Rightarrow> u8 \<Rightarrow> CR95HF_Frame \<Rightarrow> CR95HF_Frame" where
  "buildSendRecv rfData rfLen flags f =
     (let f = clear f;
          f = add CR95HF_CMD_SENDRECV f;
          f = add (rfLen + 1) f;
          f = fold (\<lambda>i. add (rfData i)) [0..<unat rfLen] f;
          f = add flags f
      in f)"

definition buildREQA :: "CR95HF_Frame \<Rightarrow> CR95HF_Frame" where
  "buildREQA f =
     (let f = clear f;
          f = add CR95HF_CMD_SENDRECV f;
          f = add 0x02 f;
          f = add ISO14443A_REQA f;
          f = add CR95HF_FLAG_SHORTFRAME f
      in f)"

definition buildWUPA :: "CR95HF_Frame \<Rightarrow> CR95HF_Frame" where
  "buildWUPA f =
     (let f = clear f;
          f = add CR95HF_CMD_SENDRECV f;
          f = add 0x02 f;
          f = add ISO14443A_WUPA f;
          f = add CR95HF_FLAG_SHORTFRAME f
      in f)"

definition buildAnticollCL1 :: "CR95HF_Frame \<Rightarrow> CR95HF_Frame" where
  "buildAnticollCL1 f =
     (let f = clear f;
          f = add CR95HF_CMD_SENDRECV f;
          f = add 0x03 f;
          f = add ISO14443A_SEL_CL1 f;
          f = add ISO14443A_NVB_ANTICOLL f;
          f = add CR95HF_FLAG_STD f
      in f)"

definition buildAnticollCL2 :: "CR95HF_Frame \<Rightarrow> CR95HF_Frame" where
  "buildAnticollCL2 f =
     (let f = clear f;
          f = add CR95HF_CMD_SENDRECV f;
          f = add 0x03 f;
          f = add ISO14443A_SEL_CL2 f;
          f = add ISO14443A_NVB_ANTICOLL f;
          f = add CR95HF_FLAG_STD f
      in f)"

definition buildSelectCL1 :: "bytes \<Rightarrow> CR95HF_Frame \<Rightarrow> CR95HF_Frame" where
  "buildSelectCL1 uid4bcc f =
     (let f = clear f;
          f = add CR95HF_CMD_SENDRECV f;
          f = add 0x08 f;
          f = add ISO14443A_SEL_CL1 f;
          f = add ISO14443A_NVB_SELECT f;
          f = fold (\<lambda>i. add (uid4bcc i)) [0..<5] f;
          f = add CR95HF_FLAG_STD_CRC f
      in f)"

definition buildSelectCL2 :: "bytes \<Rightarrow> CR95HF_Frame \<Rightarrow> CR95HF_Frame" where
  "buildSelectCL2 uid4bcc f =
     (let f = clear f;
          f = add CR95HF_CMD_SENDRECV f;
          f = add 0x08 f;
          f = add ISO14443A_SEL_CL2 f;
          f = add ISO14443A_NVB_SELECT f;
          f = fold (\<lambda>i. add (uid4bcc i)) [0..<5] f;
          f = add CR95HF_FLAG_STD_CRC f
      in f)"

text \<open>
  The bytes of a frame as \<^verbatim>\<open>sendFrame\<close> puts them on the wire:
  \<^verbatim>\<open>_port->write(frame.data, frame.len)\<close>.
\<close>

definition frame_bytes :: "CR95HF_Frame \<Rightarrow> u8 list" where
  "frame_bytes f = map (data f) [0..<unat (len f)]"

text \<open>
  The invariant of the data model: the frame holds its two header bytes, and the
  length byte (index 1) is the number of payload bytes that follow the header.
\<close>

definition length_byte_ok :: "CR95HF_Frame \<Rightarrow> bool" where
  "length_byte_ok f \<longleftrightarrow> 2 \<le> unat (len f) \<and> unat (data f 1) = unat (len f) - 2"

subsection \<open>The driver object, its serial port and the millisecond clock\<close>

text \<open>
  \<^verbatim>\<open>class CR95HF\<close> holds \<^verbatim>\<open>lastATQA[2]\<close> and the reusable \<^verbatim>\<open>_txFrame\<close>; it
  talks to a \<^verbatim>\<open>HardwareSerial\<close> port and reads \<^verbatim>\<open>millis()\<close>. The port and the
  clock are the simulated channel of the driver: \<open>clock_ms\<close> is the time in
  milliseconds, \<open>port_rx\<close> the bytes the chip sends, in order, each with the time
  at which it reaches the receive buffer, and \<open>port_tx\<close> the log of the frames
  written so far. Reading and writing take no time. A turn of a busy-wait loop that
  finds no byte is shorter than a millisecond, and turns in which neither the clock
  nor the receive buffer changes are left out: in every such turn of the model the
  clock ticks exactly once. \<^verbatim>\<open>millis()\<close> runs by itself, so where in the turn the
  tick falls is up to the environment: \<open>tick_early d c\<close> says that in the turn
  made when the clock reads \<open>c\<close> the tick falls between the call of
  \<^verbatim>\<open>available()\<close> and the call of \<^verbatim>\<open>millis()\<close>; otherwise it falls after
  \<^verbatim>\<open>millis()\<close>. A byte with arrival time \<open>t\<close> is in the buffer at every call
  of \<^verbatim>\<open>available()\<close> made when the clock reads \<open>t\<close> or more.
\<close>

record cr95hf =
  lastATQA :: "u8 \<times> u8"
  txFrame :: CR95HF_Frame
  clock_ms :: nat
  tick_early :: "nat \<Rightarrow> bool"
  port_rx :: "(nat \<times> u8) list"
  port_tx :: "u8 list list"

text \<open>\<^verbatim>\<open>millis()\<close> is a \<^verbatim>\<open>uint32_t\<close>: the clock modulo \<open>2 ^ 32\<close>.\<close>

definition millis :: "cr95hf \<Rightarrow> u32" where
  "millis d = of_nat (clock_ms d)"

text \<open>\<^verbatim>\<open>_port->available()\<close>, used as a truth value only.\<close>

definition port_available :: "cr95hf \<Rightarrow> bool" where
  "port_available d =
     (case port_rx d of [] \<Rightarrow> False | (t, b) # r \<Rightarrow> t \<le> clock_ms d)"

text \<open>\<^verbatim>\<open>_port->read()\<close>: the oldest byte of the buffer, or \<open>-1\<close> (0xFF as a
  byte) when the buffer is empty.\<close>

definition port_read :: "cr95hf \<Rightarrow> u8 \<times> cr95hf" where
  "port_read d =
     (case port_rx d of
        [] \<Rightarrow> (0xFF, d)
      | (t, b) # r \<Rightarrow> if t \<le> clock_ms d then (b, d\<lparr>port_rx := r\<rparr>) else (0xFF, d))"

definition port_write :: "u8 list \<Rightarrow> cr95hf \<Rightarrow> cr95hf" where
  "port_write bs d = d\<lparr>port_tx := port_tx d @ [bs]\<rparr>"

definition tick :: "cr95hf \<Rightarrow> cr95hf" where
  "tick d = d\<lparr>clock_ms := clock_ms d + 1\<rparr>"

definition ticks_early :: "cr95hf \<Rightarrow> bool" where
  "ticks_early d = tick_early d (clock_ms d)"

text \<open>\<^verbatim>\<open>while (_port->available()) _port->read();\<close>\<close>

function flushRx :: "cr95hf \<Rightarrow> cr95hf" where
  "flushRx d = (if port_available d then flushRx (snd (port_read d)) else d)"
  by pat_completeness auto
termination
  by (relation "measure (\<lambda>d. length (port_rx d))")
     (auto simp: port_available_def port_read_def split: list.splits)

declare flushRx.simps [simp del]

text \<open>\<^verbatim>\<open>flushRx(); _port->write(frame.data, frame.len);\<close>\<close>

definition sendFrame :: "CR95HF_Frame \<Rightarrow> cr95hf \<Rightarrow> cr95hf" where
  "sendFrame frame d = port_write (frame_bytes frame) (flushRx d)"

text \<open>
  The two waiting loops of \<^verbatim>\<open>readResponse\<close> (for the response code and for the
  length byte) are the same loop:
  \<^verbatim>\<open>while (!_port->available()) { if (millis() - start > timeoutMs) return false; }\<close>
  The result is \<open>False\<close> where the source returns false. The subtraction and the
  comparison are those of \<^verbatim>\<open>uint32_t\<close>. In a turn that finds no byte,
  \<^verbatim>\<open>millis()\<close> is read after the tick when the tick is early and before it
  otherwise. The loop need not end (no byte ever arrives and \<open>timeoutMs\<close> is
  \<open>0xFFFFFFFF\<close>): not returning is \<open>None\<close>.
\<close>

partial_function (option) waitForByte :: "u32 \<Rightarrow> u32 \<Rightarrow> cr95hf \<Rightarrow> (bool \<times> cr95hf) option" where
  "waitForByte start timeoutMs d =
     (if port_available d then Some (True, d)
      else if ticks_early d then
        (if millis (tick d) - start > timeoutMs then Some (False, tick d)
         else waitForByte start timeoutMs (tick d))
      else
        (if millis d - start > timeoutMs then Some (False, d)
         else waitForByte start timeoutMs (tick d)))"

declare waitForByte.simps [code]

text \<open>
  The payload loop:
  \<^verbatim>\<open>while (n < respLen) { if (_port->available()) buf[n++] = _port->read();
     else if (millis() - start > timeoutMs) return false; }\<close>
  The write \<^verbatim>\<open>buf[n++]\<close> is not guarded by the capacity of \<open>buf\<close>.
\<close>

partial_function (option) readPayload ::
  "u32 \<Rightarrow> u32 \<Rightarrow> u8 \<Rightarrow> u8 \<Rightarrow> bytes \<Rightarrow> cr95hf \<Rightarrow> (bool \<times> u8 \<times> bytes \<times> cr95hf) option" where
  "readPayload start timeoutMs respLen n buf d =
     (if n < respLen then
        (if port_available d
         then readPayload start timeoutMs respLen (n + 1)
                (buf(unat n := fst (port_read d))) (snd (port_read d))
         else if ticks_early d then
           (if millis (tick d) - start > timeoutMs then Some (False, n, buf, tick d)
            else readPayload start timeoutMs respLen n buf (tick d))
         else
           (if millis d - start > timeoutMs then Some (False, n, buf, d)
            else readPayload start timeoutMs respLen n buf (tick d)))
      else Some (True, n, buf, d))"

declare readPayload.simps [code]

text \<open>
  \<^verbatim>\<open>bool readResponse(uint8_t& code, uint8_t* buf, uint8_t& len, uint32_t timeoutMs)\<close>.
  The reference and pointer parameters come in with the caller's values and go out
  in the result \<open>(returned, code, buf, len, driver)\<close>. \<^verbatim>\<open>code\<close> is assigned
  as soon as the first byte is read, \<^verbatim>\<open>len\<close> only on success; the value of
  \<^verbatim>\<open>len\<close> on entry is never read.
\<close>

definition readResponse ::
  "u8 \<Rightarrow> bytes \<Rightarrow> u8 \<Rightarrow> u32 \<Rightarrow> cr95hf \<Rightarrow> (bool \<times> u8 \<times> bytes \<times> u8 \<times> cr95hf) option" where
  "readResponse code buf len0 timeoutMs d = do {
     let start = millis d;
     (got, d) \<leftarrow> waitForByte start timeoutMs d;
     if \<not> got then Some (False, code, buf, len0, d) else do {
       let code = fst (port_read d);
       let d = snd (port_read d);
       (got, d) \<leftarrow> waitForByte start timeoutMs d;
       if \<not> got then Some (False, code, buf, len0, d) else do {
         let respLen = fst (port_read d);
         let d = snd (port_read d);
         (got, n, buf, d) \<leftarrow> readPayload start timeoutMs respLen 0 buf d;
         if \<not> got then Some (False, code, buf, len0, d)
         else Some (True, code, buf, n, d)
       }
     }
   }"

subsection \<open>Wake, anticollision and select\<close>

text \<open>\<^verbatim>\<open>memcpy(dst, src, n)\<close>\<close>

definition memcpy :: "bytes \<Rightarrow> bytes \<Rightarrow> nat \<Rightarrow> bytes" where
  "memcpy dst src n = (\<lambda>i. if i < n then src i else dst i)"

text \<open>
  \<^verbatim>\<open>bool sendReqWup(uint8_t cmd, uint8_t& atqa1, uint8_t& atqa2)\<close>, with
  \<^verbatim>\<open>uint8_t code, buf[16], len = sizeof(buf)\<close> and a timeout of 20 ms.
\<close>

definition sendReqWup :: "u8 \<Rightarrow> u8 \<Rightarrow> u8 \<Rightarrow> cr95hf \<Rightarrow> (bool \<times> u8 \<times> u8 \<times> cr95hf) option" where
  "sendReqWup cmd atqa1 atqa2 d = do {
     let d = (if cmd = ISO14443A_WUPA then d\<lparr>txFrame := buildWUPA (txFrame d)\<rparr>
              else d\<lparr>txFrame := buildREQA (txFrame d)\<rparr>);
     let d = sendFrame (txFrame d) d;
     (got, code, buf, n, d) \<leftarrow> readResponse stack_u8 stack_buf 16 20 d;
     if \<not> got then Some (False, atqa1, atqa2, d)
     else if code \<noteq> CR95HF_RSP_DATA \<or> n < 2 then Some (False, atqa1, atqa2, d)
     else Some (True, buf 0, buf 1, d)
   }"

text \<open>\<^verbatim>\<open>bool anticollCL1(uint8_t* cl1)\<close>, buffer of 16 bytes, timeout 50 ms.\<close>

definition anticollCL1 :: "bytes \<Rightarrow> cr95hf \<Rightarrow> (bool \<times> bytes \<times> cr95hf) option" where
  "anticollCL1 cl1 d = do {
     let d = d\<lparr>txFrame := buildAnticollCL1 (txFrame d)\<rparr>;
     let d = sendFrame (txFrame d) d;
     (got, code, buf, n, d) \<leftarrow> readResponse stack_u8 stack_buf 16 50 d;
     if \<not> got then Some (False, cl1, d)
     else if code \<noteq> CR95HF_RSP_DATA \<or> n < 5 then Some (False, cl1, d)
     else Some (True, memcpy cl1 buf 5, d)
   }"

text \<open>\<^verbatim>\<open>bool selectCL1(const uint8_t* cl1, uint8_t& sak)\<close>, buffer of 8 bytes,
  timeout 50 ms.\<close>

definition selectCL1 :: "bytes \<Rightarrow> u8 \<Rightarrow> cr95hf \<Rightarrow> (bool \<times> u8 \<times> cr95hf) option" where
  "selectCL1 cl1 sak d = do {
     let d = d\<lparr>txFrame := buildSelectCL1 cl1 (txFrame d)\<rparr>;
     let d = sendFrame (txFrame d) d;
     (got, code, buf, n, d) \<leftarrow> readResponse stack_u8 stack_buf 8 50 d;
     if \<not> got then Some (False, sak, d)
     else if code \<noteq> CR95HF_RSP_DATA \<or> n < 1 then Some (False, sak, d)
     else Some (True, buf 0, d)
   }"

definition anticollCL2 :: "bytes \<Rightarrow> cr95hf \<Rightarrow> (bool \<times> bytes \<times> cr95hf) option" where
  "anticollCL2 cl2 d = do {
     let d = d\<lparr>txFrame := buildAnticollCL2 (txFrame d)\<rparr>;
     let d = sendFrame (txFrame d) d;
     (got, code, buf, n, d) \<leftarrow> readResponse stack_u8 stack_buf 16 50 d;
     if \<not> got then Some (False, cl2, d)
     else if code \<noteq> CR95HF_RSP_DATA \<or> n < 5 then Some (False, cl2, d)
     else Some (True, memcpy cl2 buf 5, d)
   }"

definition selectCL2 :: "bytes \<Rightarrow> u8 \<Rightarrow> cr95hf \<Rightarrow> (bool \<times> u8 \<times> cr95hf) option" where
  "selectCL2 cl2 sak d = do {
     let d = d\<lparr>txFrame := buildSelectCL2 cl2 (txFrame d)\<rparr>;
     let d = sendFrame (txFrame d) d;
     (got, code, buf, n, d) \<leftarrow> readResponse stack_u8 stack_buf 8 50 d;
     if \<not> got then Some (False, sak, d)
     else if code \<noteq> CR95HF_RSP_DATA \<or> n < 1 then Some (False, sak, d)
     else Some (True, buf 0, d)
   }"

subsection \<open>iso14443aGetUID\<close>

text \<open>
  The wake stage of \<^verbatim>\<open>iso14443aGetUID\<close> (lines 357 to 361), under a name of its
  own so that theorems can speak of its outcome:
  \<^verbatim>\<open>uint8_t atqa1 = 0, atqa2 = 0;
  bool gotAtqa = sendReqWup(ISO14443A_WUPA, atqa1, atqa2);
  if (!gotAtqa) { gotAtqa = sendReqWup(ISO14443A_REQA, atqa1, atqa2); }\<close>
\<close>

definition wakeUp :: "cr95hf \<Rightarrow> (bool \<times> u8 \<times> u8 \<times> cr95hf) option" where
  "wakeUp d = do {
     (gotAtqa, atqa1, atqa2, d) \<leftarrow> sendReqWup ISO14443A_WUPA 0 0 d;
     if \<not> gotAtqa then sendReqWup ISO14443A_REQA atqa1 atqa2 d
     else Some (gotAtqa, atqa1, atqa2, d)
   }"

text \<open>
  \<^verbatim>\<open>bool iso14443aGetUID(uint8_t* uid, uint8_t& uidLen, uint8_t& sakOut)\<close>; the
  result is \<open>(returned, uid, uidLen, sakOut, driver)\<close>.
\<close>

definition iso14443aGetUID ::
  "bytes \<Rightarrow> u8 \<Rightarrow> u8 \<Rightarrow> cr95hf \<Rightarrow> (bool \<times> bytes \<times> u8 \<times> u8 \<times> cr95hf) option" where
  "iso14443aGetUID uid uidLen sakOut d = do {
     let uidLen = 0;
     let sakOut = 0;
     (gotAtqa, atqa1, atqa2, d) \<leftarrow> wakeUp d;
     if \<not> gotAtqa then Some (False, uid, uidLen, sakOut, d) else do {
       let d = d\<lparr>lastATQA := (atqa1, atqa2)\<rparr>;
       (ok, cl1, d) \<leftarrow> anticollCL1 stack_buf d;
       if \<not> ok then Some (False, uid, uidLen, sakOut, d) else do {
         (ok, sak1, d) \<leftarrow> selectCL1 cl1 0 d;
         if \<not> ok then Some (False, uid, uidLen, sakOut, d)
         else if cl1 0 \<noteq> ISO14443A_CT
         then Some (True, uid(0 := cl1 0, 1 := cl1 1, 2 := cl1 2, 3 := cl1 3), 4, sak1, d)
         else do {
           let uid = uid(0 := cl1 1, 1 := cl1 2, 2 := cl1 3);
           (ok, cl2, d) \<leftarrow> anticollCL2 stack_buf d;
           if \<not> ok then Some (False, uid, uidLen, sakOut, d) else do {
             (ok, sak2, d) \<leftarrow> selectCL2 cl2 0 d;
             if \<not> ok then Some (False, uid, uidLen, sakOut, d)
             else Some (True, uid(3 := cl2 0, 4 := cl2 1, 5 := cl2 2, 6 := cl2 3), 7, sak2, d)
           }
         }
       }
     }
   }"

subsection \<open>Notions used to state the properties\<close>

text \<open>
  The first \<open>k\<close> bytes of the incoming stream exist and each has reached the
  receive buffer by the time \<open>D\<close>.
\<close>

definition arrive_by :: "nat \<Rightarrow> nat \<Rightarrow> (nat \<times> u8) list \<Rightarrow> bool" where
  "arrive_by D k xs \<longleftrightarrow> k \<le> length xs \<and> (\<forall>x \<in> set (take k xs). fst x \<le> D)"

text \<open>
  A whole response is delivered by the time \<open>D\<close>: the status code, the length
  byte, and as many payload bytes as the length byte announces.
\<close>

definition delivered :: "nat \<Rightarrow> (nat \<times> u8) list \<Rightarrow> bool" where
  "delivered D xs \<longleftrightarrow> arrive_by D 2 xs \<and> arrive_by D (2 + unat (snd (xs ! 1))) xs"

text \<open>
  The driver after it has waited for and read the next \<open>k\<close> bytes: the clock
  has moved to the latest of their arrival times (if that is later than now).
\<close>

definition recv :: "nat \<Rightarrow> cr95hf \<Rightarrow> cr95hf" where
  "recv k d = d\<lparr>clock_ms := foldl max (clock_ms d) (map fst (take k (port_rx d))),
                port_rx := drop k (port_rx d)\<rparr>"


text \<open>Nothing but the clock and the receive side of the port differs.\<close>

definition same_driver :: "cr95hf \<Rightarrow> cr95hf \<Rightarrow> bool" where
  "same_driver d d' \<longleftrightarrow>
     port_tx d' = port_tx d \<and> lastATQA d' = lastATQA d \<and> txFrame d' = txFrame d"

text \<open>
  The driver at the moment \<^verbatim>\<open>millis()\<close> is read in a turn that finds no byte.
\<close>

definition at_millis :: "cr95hf \<Rightarrow> cr95hf" where
  "at_millis d = (if ticks_early d then tick d else d)"

text \<open>
  What \<^verbatim>\<open>sendReqWup\<close> has to find for a valid ATQA: a response was read, its
  status is the data status, and it has at least 2 payload bytes.
\<close>

definition atqa_response :: "bool \<Rightarrow> u8 \<Rightarrow> u8 \<Rightarrow> bool" where
  "atqa_response got code n \<longleftrightarrow> got \<and> code = CR95HF_RSP_DATA \<and> 2 \<le> unat n"

text \<open>
  The driver as the constructor leaves it (\<^verbatim>\<open>memset(lastATQA, 0, sizeof(lastATQA))\<close>),
  at time 0 with nothing written and a clock that ticks after \<^verbatim>\<open>millis()\<close> is
  read; the same driver in front of a line on which the bytes \<open>xs\<close> will arrive;
  and that driver with a clock that ticks before \<^verbatim>\<open>millis()\<close> is read.
\<close>

definition fresh_driver :: cr95hf where
  "fresh_driver =
     \<lparr>lastATQA = (0, 0), txFrame = new_Frame, clock_ms = 0, tick_early = (\<lambda>_. False),
      port_rx = [], port_tx = []\<rparr>"

definition on_line :: "(nat \<times> u8) list \<Rightarrow> cr95hf" where
  "on_line xs = fresh_driver\<lparr>port_rx := xs\<rparr>"

definition on_line_early :: "(nat \<times> u8) list \<Rightarrow> cr95hf" where
  "on_line_early xs = fresh_driver\<lparr>tick_early := (\<lambda>_. True), port_rx := xs\<rparr>"

text \<open>
  The driver at the moment it starts to wait for the response of an exchange: the
  frame \<open>f\<close> has been built into \<^verbatim>\<open>_txFrame\<close> and \<^verbatim>\<open>sendFrame(_txFrame)\<close> has run.
\<close>

definition sent :: "CR95HF_Frame \<Rightarrow> cr95hf \<Rightarrow> cr95hf" where
  "sent f d = sendFrame f (d\<lparr>txFrame := f\<rparr>)"

subsection \<open>Scripted lines\<close>

text \<open>
  Byte streams of the chip, with arrival times in milliseconds, for the runs below. A
  response is \<open>status, length, payload\<close>; \<open>0x80\<close> is the data status and
  \<open>0x87\<close> the chip's report that no tag answered. Each response arrives one
  millisecond after the previous one was read.

  \<open>line_single\<close>: ATQA 04 00, candidate DE AD BE EF with check byte 22, SAK 08.
  \<open>line_double\<close>: ATQA 44 00, candidate 88 04 A1 B2 (cascade tag first), SAK 04, then
  candidate C3 D4 E5 F6, SAK 20. \<open>line_fallback\<close>: no tag on the wake-all command,
  then the single-size tag. \<open>line_wupa_short\<close>: the wake-all command is answered
  with the data status and a single payload byte, then the single-size tag.
  \<open>line_wupa_not_data\<close>: the wake-all command is answered with 2 payload bytes
  under the status \<open>0x90\<close>, then the single-size tag.
  \<open>line_no_tag\<close>: no tag on either wake command.
  \<open>line_short_anticoll\<close>: the anticollision response carries 3 bytes.
  \<open>line_bad_bcc\<close>: the candidate DE AD BE EF comes with the check byte 00 instead
  of 22. \<open>line_anticoll2_fails\<close> and \<open>line_select2_fails\<close>: the tag is lost at the
  anticollision, respectively the select, of cascade level 2. \<open>line_overrun\<close>: a
  response announcing 9 payload bytes.
\<close>

definition line_single :: "(nat \<times> u8) list" where
  "line_single =
     [(1, 0x80), (1, 0x02), (1, 0x04), (1, 0x00),
      (2, 0x80), (2, 0x05), (2, 0xDE), (2, 0xAD), (2, 0xBE), (2, 0xEF), (2, 0x22),
      (3, 0x80), (3, 0x01), (3, 0x08)]"

definition line_double :: "(nat \<times> u8) list" where
  "line_double =
     [(1, 0x80), (1, 0x02), (1, 0x44), (1, 0x00),
      (2, 0x80), (2, 0x05), (2, 0x88), (2, 0x04), (2, 0xA1), (2, 0xB2), (2, 0x9F),
      (3, 0x80), (3, 0x01), (3, 0x04),
      (4, 0x80), (4, 0x05), (4, 0xC3), (4, 0xD4), (4, 0xE5), (4, 0xF6), (4, 0x04),
      (5, 0x80), (5, 0x01), (5, 0x20)]"

definition line_fallback :: "(nat \<times> u8) list" where
  "line_fallback =
     [(1, 0x87), (1, 0x00),
      (2, 0x80), (2, 0x02), (2, 0x04), (2, 0x00),
      (3, 0x80), (3, 0x05), (3, 0xDE), (3, 0xAD), (3, 0xBE), (3, 0xEF), (3, 0x22),
      (4, 0x80), (4, 0x01), (4, 0x08)]"

definition line_wupa_short :: "(nat \<times> u8) list" where
  "line_wupa_short =
     [(1, 0x80), (1, 0x01), (1, 0x04),
      (2, 0x80), (2, 0x02), (2, 0x04), (2, 0x00),
      (3, 0x80), (3, 0x05), (3, 0xDE), (3, 0xAD), (3, 0xBE), (3, 0xEF), (3, 0x22),
      (4, 0x80), (4, 0x01), (4, 0x08)]"

definition line_wupa_not_data :: "(nat \<times> u8) list" where
  "line_wupa_not_data =
     [(1, 0x90), (1, 0x02), (1, 0x04), (1, 0x00),
      (2, 0x80), (2, 0x02), (2, 0x04), (2, 0x00),
      (3, 0x80), (3, 0x05), (3, 0xDE), (3, 0xAD), (3, 0xBE), (3, 0xEF), (3, 0x22),
      (4, 0x80), (4, 0x01), (4, 0x08)]"

definition line_no_tag :: "(nat \<times> u8) list" where
  "line_no_tag = [(1, 0x87), (1, 0x00), (2, 0x87), (2, 0x00)]"

definition line_short_anticoll :: "(nat \<times> u8) list" where
  "line_short_anticoll =
     [(1, 0x80), (1, 0x02), (1, 0x04), (1, 0x00),
      (2, 0x80), (2, 0x03), (2, 0xDE), (2, 0xAD), (2, 0xBE)]"

definition line_bad_bcc :: "(nat \<times> u8) list" where
  "line_bad_bcc =
     [(1, 0x80), (1, 0x02), (1, 0x04), (1, 0x00),
      (2, 0x80), (2, 0x05), (2, 0xDE), (2, 0xAD), (2, 0xBE), (2, 0xEF), (2, 0x00),
      (3, 0x80), (3, 0x01), (3, 0x08)]"

definition line_anticoll2_fails :: "(nat \<times> u8) list" where
  "line_anticoll2_fails =
     [(1, 0x80), (1, 0x02), (1, 0x44), (1, 0x00),
      (2, 0x80), (2, 0x05), (2, 0x88), (2, 0x04), (2, 0xA1), (2, 0xB2), (2, 0x9F),
      (3, 0x80), (3, 0x01), (3, 0x04),
      (4, 0x87), (4, 0x00)]"

definition line_select2_fails :: "(nat \<times> u8) list" where
  "line_select2_fails =
     [(1, 0x80), (1, 0x02), (1, 0x44), (1, 0x00),
      (2, 0x80), (2, 0x05), (2, 0x88), (2, 0x04), (2, 0xA1), (2, 0xB2), (2, 0x9F),
      (3, 0x80), (3, 0x01), (3, 0x04),
      (4, 0x80), (4, 0x05), (4, 0xC3), (4, 0xD4), (4, 0xE5), (4, 0xF6), (4, 0x04),
      (5, 0x87), (5, 0x00)]"

definition line_overrun :: "(nat \<times> u8) list" where
  "line_overrun =
     [(1, 0x80), (1, 0x09),
      (1, 0x01), (1, 0x02), (1, 0x03), (1, 0x04), (1, 0x05), (1, 0x06), (1, 0x07), (1, 0x08),
      (1, 0x09)]"

section \<open>Frames\<close>

lemma length_frame_bytes: "length (frame_bytes f) = unat (len f)"
  by (simp add: frame_bytes_def)

lemma frame_bytes_clear: "frame_bytes (clear f) = []"
  by (simp add: frame_bytes_def clear_def)

lemma unat_u8_suc: "unat (l :: u8) < 32 \<Longrightarrow> unat (l + 1) = Suc (unat l)"
  by (simp add: unat_word_ariths)

lemma frame_bytes_add: "unat (len f) < 32 \<Longrightarrow> frame_bytes (add b f) = frame_bytes f @ [b]"
  by (simp add: frame_bytes_def add_def sizeof_data_def unat_u8_suc)

lemma add_full: "\<not> unat (len f) < 32 \<Longrightarrow> add b f = f"
  by (simp add: add_def sizeof_data_def)

lemma frame_bytes_add_take:
  "unat (len f) \<le> 32 \<Longrightarrow> frame_bytes (add b f) = take 32 (frame_bytes f @ [b])"
  by (cases "unat (len f) < 32") (simp_all add: frame_bytes_add add_full length_frame_bytes)

lemma len_add_le: "unat (len f) \<le> 32 \<Longrightarrow> unat (len (add b f)) \<le> 32"
  by (simp add: add_def sizeof_data_def unat_u8_suc)

lemma take_take_append: "take n (take n a @ b) = take n (a @ b)"
  by (cases "n \<le> length a") (simp_all add: take_append)

lemma frame_bytes_fold_add:
  "unat (len f) \<le> 32 \<Longrightarrow>
     frame_bytes (fold (\<lambda>i. add (g i)) xs f) = take 32 (frame_bytes f @ map g xs)
     \<and> unat (len (fold (\<lambda>i. add (g i)) xs f)) \<le> 32"
proof (induction xs arbitrary: f)
  case Nil
  then show ?case by (simp add: length_frame_bytes)
next
  case (Cons x xs)
  have le: "unat (len (add (g x) f)) \<le> 32" using Cons.prems by (rule len_add_le)
  have "frame_bytes (fold (\<lambda>i. add (g i)) (x # xs) f)
      = take 32 (take 32 (frame_bytes f @ [g x]) @ map g xs)"
    using Cons.IH [OF le] Cons.prems by (simp add: frame_bytes_add_take)
  also have "\<dots> = take 32 (frame_bytes f @ map g (x # xs))"
    by (simp only: take_take_append) simp
  finally show ?case using Cons.IH [OF le] by simp
qed

lemma frame_bytes_buildSendRecv:
  "frame_bytes (buildSendRecv rfData rfLen flags f) =
     take 32 ([CR95HF_CMD_SENDRECV, rfLen + 1] @ map rfData [0..<unat rfLen] @ [flags])"
proof -
  define f2 where "f2 = add (rfLen + 1) (add CR95HF_CMD_SENDRECV (clear f))"
  have b2: "frame_bytes f2 = [CR95HF_CMD_SENDRECV, rfLen + 1]"
    by (simp add: f2_def frame_bytes_def clear_def add_def sizeof_data_def upt_rec)
  have l2: "unat (len f2) \<le> 32"
    using arg_cong [OF b2, of length] by (simp add: length_frame_bytes)
  define f3 where "f3 = fold (\<lambda>i. add (rfData i)) [0..<unat rfLen] f2"
  have b3: "frame_bytes f3 = take 32 (frame_bytes f2 @ map rfData [0..<unat rfLen])"
    and l3: "unat (len f3) \<le> 32"
    using frame_bytes_fold_add [OF l2, of rfData "[0..<unat rfLen]"] by (simp_all add: f3_def)
  have "frame_bytes (add flags f3) = take 32 (frame_bytes f3 @ [flags])"
    using l3 by (rule frame_bytes_add_take)
  also have "\<dots> = take 32 ((frame_bytes f2 @ map rfData [0..<unat rfLen]) @ [flags])"
    by (simp only: b3 take_take_append)
  finally show ?thesis
    by (simp add: buildSendRecv_def Let_def f3_def [symmetric] f2_def [symmetric] b2)
qed

lemma length_byte_ok_bytes:
  "length_byte_ok f \<longleftrightarrow>
     2 \<le> length (frame_bytes f) \<and> unat (frame_bytes f ! 1) = length (frame_bytes f) - 2"
  by (auto simp: length_byte_ok_def frame_bytes_def)

lemma upt5: "[0..<5] = [0, 1, 2, 3, 4]"
  by (simp add: upt_rec)

lemma unat_len_clear: "unat (len (clear f)) = 0"
  by (simp add: clear_def)

lemma unat_len_add: "unat (len f) < 32 \<Longrightarrow> unat (len (add b f)) = Suc (unat (len f))"
  by (simp add: add_def sizeof_data_def unat_u8_suc)

lemma frame_bytes_fixed:
  "frame_bytes (buildIDN f) = [0x01, 0x00]"
  "frame_bytes (buildProtocolSelect proto param f) = [0x02, 0x02, proto, param]"
  "frame_bytes (buildREQA f) = [0x04, 0x02, 0x26, 0x07]"
  "frame_bytes (buildWUPA f) = [0x04, 0x02, 0x52, 0x07]"
  "frame_bytes (buildAnticollCL1 f) = [0x04, 0x03, 0x93, 0x20, 0x08]"
  "frame_bytes (buildAnticollCL2 f) = [0x04, 0x03, 0x95, 0x20, 0x08]"
  "frame_bytes (buildSelectCL1 u f) = [0x04, 0x08, 0x93, 0x70, u 0, u 1, u 2, u 3, u 4, 0x28]"
  "frame_bytes (buildSelectCL2 u f) = [0x04, 0x08, 0x95, 0x70, u 0, u 1, u 2, u 3, u 4, 0x28]"
  by (simp_all add: buildIDN_def buildProtocolSelect_def buildREQA_def buildWUPA_def
      buildAnticollCL1_def buildAnticollCL2_def buildSelectCL1_def buildSelectCL2_def
      upt5 frame_bytes_add frame_bytes_clear unat_len_add unat_len_clear cr95hf_consts)


lemma length_byte_ok_fixed:
  "length_byte_ok (buildIDN f)"
  "length_byte_ok (buildProtocolSelect proto param f)"
  "length_byte_ok (buildREQA f)"
  "length_byte_ok (buildWUPA f)"
  "length_byte_ok (buildAnticollCL1 f)"
  "length_byte_ok (buildAnticollCL2 f)"
  "length_byte_ok (buildSelectCL1 u f)"
  "length_byte_ok (buildSelectCL2 u f)"
  by (simp_all add: length_byte_ok_bytes frame_bytes_fixed)

lemma buildSendRecv_fits:
  assumes "unat rfLen \<le> 29"
  shows "frame_bytes (buildSendRecv rfData rfLen flags f) =
           [CR95HF_CMD_SENDRECV, rfLen + 1] @ map rfData [0..<unat rfLen] @ [flags]"
    and "length_byte_ok (buildSendRecv rfData rfLen flags f)"
proof -
  show b: "frame_bytes (buildSendRecv rfData rfLen flags f) =
           [CR95HF_CMD_SENDRECV, rfLen + 1] @ map rfData [0..<unat rfLen] @ [flags]"
    using assms by (simp add: frame_bytes_buildSendRecv)
  have "unat (rfLen + 1) = unat rfLen + 1"
    using assms by (simp add: unat_word_ariths)
  then show "length_byte_ok (buildSendRecv rfData rfLen flags f)"
    by (simp add: length_byte_ok_bytes b)
qed

lemma buildSendRecv_truncates:
  assumes "30 \<le> unat rfLen"
  shows "frame_bytes (buildSendRecv rfData rfLen flags f) =
           [CR95HF_CMD_SENDRECV, rfLen + 1] @ map rfData [0..<30]"
    and "\<not> length_byte_ok (buildSendRecv rfData rfLen flags f)"
proof -
  have "take 30 (map rfData [0..<unat rfLen]) = map rfData [0..<30]"
    using assms by (simp add: take_map min_def)
  then show b: "frame_bytes (buildSendRecv rfData rfLen flags f) =
           [CR95HF_CMD_SENDRECV, rfLen + 1] @ map rfData [0..<30]"
    using assms by (simp add: frame_bytes_buildSendRecv)
  have "unat rfLen < 256" using unsigned_less [of rfLen, where ?'a = nat] by simp
  then have "unat (rfLen + 1) \<noteq> 30"
    using assms by (simp add: unat_word_ariths mod_Suc)
  then show "\<not> length_byte_ok (buildSendRecv rfData rfLen flags f)"
    by (simp add: length_byte_ok_bytes b)
qed

text \<open>
  Claim C2, as the code has it. Every fixed-shape builder (IDN, protocol select, REQA,
  WUPA, anticollision and select of both cascade levels) yields a frame whose length
  byte is the number of payload bytes in the frame, and so does \<open>buildSendRecv\<close>
  when the RF data is at most 29 bytes long (header, data and flags fit the 32 bytes).
  With 30 or more bytes of RF data \<open>buildSendRecv\<close> reports nothing: the guard of
  \<open>add\<close> drops every byte past the capacity, the frame is the two header bytes and
  the first 30 data bytes, and its length byte is not its payload count.
\<close>

theorem builders_length_byte:
  "length_byte_ok (buildIDN f) \<and>
   length_byte_ok (buildProtocolSelect proto param f) \<and>
   length_byte_ok (buildREQA f) \<and>
   length_byte_ok (buildWUPA f) \<and>
   length_byte_ok (buildAnticollCL1 f) \<and>
   length_byte_ok (buildAnticollCL2 f) \<and>
   length_byte_ok (buildSelectCL1 u f) \<and>
   length_byte_ok (buildSelectCL2 u f) \<and>
   (unat rfLen \<le> 29 \<longrightarrow>
      length_byte_ok (buildSendRecv rfData rfLen flags f) \<and>
      frame_bytes (buildSendRecv rfData rfLen flags f) =
        [CR95HF_CMD_SENDRECV, rfLen + 1] @ map rfData [0..<unat rfLen] @ [flags]) \<and>
   (30 \<le> unat rfLen \<longrightarrow>
      \<not> length_byte_ok (buildSendRecv rfData rfLen flags f) \<and>
      frame_bytes (buildSendRecv rfData rfLen flags f) =
        [CR95HF_CMD_SENDRECV, rfLen + 1] @ map rfData [0..<30])"
  using length_byte_ok_fixed [where f = f]
    buildSendRecv_fits [where rfLen = rfLen and f = f]
    buildSendRecv_truncates [where rfLen = rfLen and f = f]
  by simp

theorem builders_length_byte_witness:
  "unat (3 :: u8) \<le> 29 \<and> 30 \<le> unat (200 :: u8) \<and>
   length_byte_ok (buildSendRecv stack_buf 3 CR95HF_FLAG_STD_CRC new_Frame) \<and>
   frame_bytes (buildSendRecv stack_buf 3 CR95HF_FLAG_STD_CRC new_Frame) =
     [0x04, 0x04, 0, 0, 0, 0x28] \<and>
   \<not> length_byte_ok (buildSendRecv stack_buf 200 CR95HF_FLAG_STD_CRC new_Frame) \<and>
   length (frame_bytes (buildSendRecv stack_buf 200 CR95HF_FLAG_STD_CRC new_Frame)) = 32"
  using builders_length_byte [where f = new_Frame and rfLen = 3 and rfData = stack_buf
      and flags = CR95HF_FLAG_STD_CRC]
    builders_length_byte [where f = new_Frame and rfLen = 200 and rfData = stack_buf
      and flags = CR95HF_FLAG_STD_CRC]
  by (simp add: cr95hf_consts stack_buf_def upt_rec)

text \<open>
  Claim C2 as stated fails: asked for 30 bytes of RF data, the builder returns a full
  frame of 32 bytes whose length byte says 31 while 30 payload bytes are present.
\<close>

theorem buildSendRecv_truncation_counterexample:
  "unat (len (buildSendRecv stack_buf 30 CR95HF_FLAG_STD_CRC new_Frame)) = 32 \<and>
   data (buildSendRecv stack_buf 30 CR95HF_FLAG_STD_CRC new_Frame) 1 = 31 \<and>
   \<not> length_byte_ok (buildSendRecv stack_buf 30 CR95HF_FLAG_STD_CRC new_Frame)"
proof -
  have b: "frame_bytes (buildSendRecv stack_buf 30 CR95HF_FLAG_STD_CRC new_Frame) =
      [CR95HF_CMD_SENDRECV, 30 + 1] @ map stack_buf [0..<30]"
    by (rule buildSendRecv_truncates) simp
  have l: "unat (len (buildSendRecv stack_buf 30 CR95HF_FLAG_STD_CRC new_Frame)) = 32"
    using arg_cong [OF b, of length] by (simp add: length_frame_bytes)
  have "frame_bytes (buildSendRecv stack_buf 30 CR95HF_FLAG_STD_CRC new_Frame) ! 1 = 31"
    by (simp only: b) simp
  then have d: "data (buildSendRecv stack_buf 30 CR95HF_FLAG_STD_CRC new_Frame) 1 = 31"
    using l by (simp add: frame_bytes_def)
  show ?thesis using l d by (simp add: length_byte_ok_def)
qed
section \<open>Transport: readResponse under its timeout\<close>

lemma elapsed_unat:
  "now0 \<le> n \<Longrightarrow> n - now0 < 2 ^ 32 \<Longrightarrow> unat ((of_nat n :: u32) - of_nat now0) = n - now0"
  by (simp add: of_nat_diff [symmetric] unat_of_nat del: of_nat_diff)


lemma timed_out:
  assumes "now0 + unat T < n" "n - now0 < 2 ^ 32"
  shows "(of_nat n :: u32) - of_nat now0 > T"
proof -
  have "unat ((of_nat n :: u32) - of_nat now0) = n - now0"
    using assms by (intro elapsed_unat) auto
  then show ?thesis using assms by (simp add: word_less_nat_alt)
qed

text \<open>The clock at the moment \<open>millis()\<close> is read in an empty turn, and what the
  timeout test finds there.\<close>

lemma at_millis_fields:
  "port_rx (at_millis d) = port_rx d"
  "clock_ms d \<le> clock_ms (at_millis d)" "clock_ms (at_millis d) \<le> clock_ms d + 1"
  by (simp_all add: at_millis_def tick_def)


lemma out_of_budget:
  assumes "clock_ms d = now0 + unat T + 1" "unat T < 2 ^ 32 - 2"
  shows "millis (at_millis d) - of_nat now0 > T"
  unfolding millis_def using assms at_millis_fields(2,3) [of d]
  by (intro timed_out) auto

lemma waitForByte_poll:
  "port_available d \<Longrightarrow> waitForByte s T d = Some (True, d)"
  "\<not> port_available d \<Longrightarrow> millis (at_millis d) - s > T \<Longrightarrow>
     waitForByte s T d = Some (False, at_millis d)"
  "\<not> port_available d \<Longrightarrow> \<not> millis (at_millis d) - s > T \<Longrightarrow>
     waitForByte s T d = waitForByte s T (tick d)"
proof -
  note body = waitForByte.simps [of s T d]
  show "port_available d \<Longrightarrow> waitForByte s T d = Some (True, d)"
    by (simp add: body)
  show "\<not> port_available d \<Longrightarrow> millis (at_millis d) - s > T \<Longrightarrow>
     waitForByte s T d = Some (False, at_millis d)"
    by (cases "ticks_early d") (simp_all add: body at_millis_def)
  show "\<not> port_available d \<Longrightarrow> \<not> millis (at_millis d) - s > T \<Longrightarrow>
     waitForByte s T d = waitForByte s T (tick d)"
    by (cases "ticks_early d") (simp_all add: body at_millis_def)
qed

lemma readPayload_poll:
  "\<not> n < respLen \<Longrightarrow> readPayload s T respLen n buf d = Some (True, n, buf, d)"
  "n < respLen \<Longrightarrow> port_available d \<Longrightarrow>
     readPayload s T respLen n buf d =
       readPayload s T respLen (n + 1) (buf(unat n := fst (port_read d))) (snd (port_read d))"
  "n < respLen \<Longrightarrow> \<not> port_available d \<Longrightarrow> millis (at_millis d) - s > T \<Longrightarrow>
     readPayload s T respLen n buf d = Some (False, n, buf, at_millis d)"
  "n < respLen \<Longrightarrow> \<not> port_available d \<Longrightarrow> \<not> millis (at_millis d) - s > T \<Longrightarrow>
     readPayload s T respLen n buf d = readPayload s T respLen n buf (tick d)"
proof -
  note body = readPayload.simps [of s T respLen n buf d]
  show "\<not> n < respLen \<Longrightarrow> readPayload s T respLen n buf d = Some (True, n, buf, d)"
    by (simp add: body)
  show "n < respLen \<Longrightarrow> port_available d \<Longrightarrow>
     readPayload s T respLen n buf d =
       readPayload s T respLen (n + 1) (buf(unat n := fst (port_read d))) (snd (port_read d))"
    by (simp add: body)
  show "n < respLen \<Longrightarrow> \<not> port_available d \<Longrightarrow> millis (at_millis d) - s > T \<Longrightarrow>
     readPayload s T respLen n buf d = Some (False, n, buf, at_millis d)"
    by (cases "ticks_early d") (simp_all add: body at_millis_def)
  show "n < respLen \<Longrightarrow> \<not> port_available d \<Longrightarrow> \<not> millis (at_millis d) - s > T \<Longrightarrow>
     readPayload s T respLen n buf d = readPayload s T respLen n buf (tick d)"
    by (cases "ticks_early d") (simp_all add: body at_millis_def)
qed



lemma recv_tick:
  assumes "port_rx d = (t, b) # r" "clock_ms d < t"
  shows "\<not> port_available d" "recv (Suc k) (tick d) = recv (Suc k) d"
  using assms by (simp_all add: port_available_def recv_def tick_def max_def)

lemma arrive_by_Suc:
  "arrive_by D (Suc k) xs \<longleftrightarrow> (\<exists>t b r. xs = (t, b) # r \<and> t \<le> D \<and> arrive_by D k r)"
  by (cases xs) (auto simp: arrive_by_def)


text \<open>
  Whatever the line and the clock do, the wait returns when \<open>timeoutMs\<close> is below
  \<open>0xFFFFFFFE\<close>; and it returns true only if the byte has arrived by
  \<open>timeoutMs + 1\<close> milliseconds after the start.
\<close>

lemma waitForByte_outcome:
  assumes "unat T < 2 ^ 32 - 2" "now0 \<le> clock_ms d" "clock_ms d \<le> now0 + unat T + 1"
  shows "\<exists>g d'. waitForByte (of_nat now0) T d = Some (g, d') \<and>
           (g \<longrightarrow> arrive_by (now0 + unat T + 1) 1 (port_rx d) \<and>
                 fst (port_read d') = snd (port_rx d ! 0) \<and> snd (port_read d') = recv 1 d)"
  using assms
proof (induction "now0 + unat T + 1 - clock_ms d" arbitrary: d rule: less_induct)
  case less
  show ?case
  proof (cases "port_available d")
    case True
    then obtain t b r where rx: "port_rx d = (t, b) # r" and t: "t \<le> clock_ms d"
      by (auto simp: port_available_def split: list.splits)
    have "arrive_by (now0 + unat T + 1) 1 (port_rx d)"
      using rx t less.prems(3) by (simp add: arrive_by_def)
    moreover have "fst (port_read d) = snd (port_rx d ! 0)" "snd (port_read d) = recv 1 d"
      using rx t by (simp_all add: port_read_def recv_def max_absorb1)
    ultimately show ?thesis by (auto simp: waitForByte_poll(1) [OF True])
  next
    case na: False
    show ?thesis
    proof (cases "millis (at_millis d) - of_nat now0 > T")
      case True
      then show ?thesis by (auto simp: waitForByte_poll(2) [OF na])
    next
      case nt: False
      have "clock_ms d \<noteq> now0 + unat T + 1"
        using out_of_budget [OF _ less.prems(1), of d now0] nt by blast
      then have lt: "clock_ms d < now0 + unat T + 1" using less.prems(3) by simp
      have "\<exists>g d'. waitForByte (of_nat now0) T (tick d) = Some (g, d') \<and>
           (g \<longrightarrow> arrive_by (now0 + unat T + 1) 1 (port_rx (tick d)) \<and>
                 fst (port_read d') = snd (port_rx (tick d) ! 0) \<and>
                 snd (port_read d') = recv 1 (tick d))"
        using less.prems lt by (intro less.hyps) (auto simp: tick_def)
      then obtain g d' where w: "waitForByte (of_nat now0) T (tick d) = Some (g, d')"
        and s: "g \<longrightarrow> arrive_by (now0 + unat T + 1) 1 (port_rx d) \<and>
                 fst (port_read d') = snd (port_rx d ! 0) \<and>
                 snd (port_read d') = recv 1 (tick d)"
        by (auto simp: tick_def)
      have "recv 1 (tick d) = recv 1 d" if "arrive_by (now0 + unat T + 1) 1 (port_rx d)"
      proof -
        from that obtain t b r where rx: "port_rx d = (t, b) # r"
          using arrive_by_Suc [of _ 0] by auto
        then have "clock_ms d < t" using na by (simp add: port_available_def)
        from recv_tick(2) [OF rx this, of 0] show ?thesis by simp
      qed
      then show ?thesis using w s by (auto simp: waitForByte_poll(3) [OF na nt])
    qed
  qed
qed



lemma unat_counter_suc:
  fixes n :: u8
  assumes "n < respLen"
  shows "unat (n + 1) = Suc (unat n)" "n + 1 \<le> respLen"
proof -
  have "unat respLen < 256" using unsigned_less [of respLen, where ?'a = nat] by simp
  then show "unat (n + 1) = Suc (unat n)"
    using assms by (simp add: unat_word_ariths word_less_nat_alt)
  then show "n + 1 \<le> respLen"
    using assms by (simp add: word_le_nat_alt word_less_nat_alt)
qed


lemma readPayload_outcome:
  assumes "unat T < 2 ^ 32 - 2" "n \<le> respLen"
    and "now0 \<le> clock_ms d" "clock_ms d \<le> now0 + unat T + 1"
  shows "\<exists>g n' buf' d'. readPayload (of_nat now0) T respLen n buf d = Some (g, n', buf', d') \<and>
           (g \<longrightarrow> arrive_by (now0 + unat T + 1) (unat respLen - unat n) (port_rx d))"
  using assms
proof (induction "unat respLen - unat n + (now0 + unat T + 1 - clock_ms d)"
    arbitrary: n buf d rule: less_induct)
  case less
  show ?case
  proof (cases "n < respLen")
    case False
    then have "n = respLen" using less.prems(2) by simp
    then show ?thesis by (auto simp: readPayload_poll(1) arrive_by_def)
  next
    case lt: True
    then have k: "unat respLen - unat n = Suc (unat respLen - unat (n + 1))"
      and le: "n + 1 \<le> respLen"
      using unat_counter_suc [OF lt] by (simp_all add: word_less_nat_alt)
    show ?thesis
    proof (cases "port_available d")
      case True
      then obtain t b r where rx: "port_rx d = (t, b) # r" and t: "t \<le> clock_ms d"
        by (auto simp: port_available_def split: list.splits)
      have rx': "port_rx (snd (port_read d)) = r" "clock_ms (snd (port_read d)) = clock_ms d"
        using rx t by (simp_all add: port_read_def)
      have "\<exists>g n' buf' d'. readPayload (of_nat now0) T respLen (n + 1)
          (buf(unat n := fst (port_read d))) (snd (port_read d)) = Some (g, n', buf', d') \<and>
          (g \<longrightarrow> arrive_by (now0 + unat T + 1) (unat respLen - unat (n + 1))
                  (port_rx (snd (port_read d))))"
        using le less.prems(1,3,4) k by (intro less.hyps) (simp_all add: rx')
      moreover have "arrive_by (now0 + unat T + 1) (unat respLen - unat n) (port_rx d)"
        if "arrive_by (now0 + unat T + 1) (unat respLen - unat (n + 1)) r"
        unfolding k arrive_by_Suc using that rx t less.prems(4) by auto
      ultimately show ?thesis
        by (auto simp: readPayload_poll(2) [OF lt True] rx')
    next
      case na: False
      show ?thesis
      proof (cases "millis (at_millis d) - of_nat now0 > T")
        case True
        then show ?thesis by (auto simp: readPayload_poll(3) [OF lt na])
      next
        case nt: False
        have "clock_ms d \<noteq> now0 + unat T + 1"
          using out_of_budget [OF _ less.prems(1), of d now0] nt by blast
        then have c: "clock_ms d < now0 + unat T + 1" using less.prems(4) by simp
        have "\<exists>g n' buf' d'. readPayload (of_nat now0) T respLen n buf (tick d)
            = Some (g, n', buf', d') \<and>
            (g \<longrightarrow> arrive_by (now0 + unat T + 1) (unat respLen - unat n) (port_rx (tick d)))"
          using less.prems c by (intro less.hyps) (auto simp: tick_def)
        then show ?thesis
          by (auto simp: readPayload_poll(4) [OF lt na nt] tick_def)
      qed
    qed
  qed
qed

lemma same_driver_refl: "same_driver d d"
  by (simp add: same_driver_def)

lemma same_driver_trans: "same_driver a b \<Longrightarrow> same_driver b c \<Longrightarrow> same_driver a c"
  by (simp add: same_driver_def)

lemma same_driver_tick: "same_driver d (tick d)"
  by (simp add: same_driver_def tick_def)

lemma same_driver_read: "same_driver d (snd (port_read d))"
  by (simp add: same_driver_def port_read_def split: list.splits)

lemma waitForByte_keeps:
  assumes "waitForByte s T d = Some y"
  shows "same_driver d (snd y)"
proof (rule waitForByte.raw_induct [where P = "\<lambda>s T d y. same_driver d (snd y)", OF _ assms])
  fix wf :: "u32 \<Rightarrow> u32 \<Rightarrow> cr95hf \<Rightarrow> (bool \<times> cr95hf) option"
    and start timeoutMs d y
  assume IH: "\<And>start timeoutMs d y. wf start timeoutMs d = Some y \<Longrightarrow> same_driver d (snd y)"
  assume eq: "(if port_available d then Some (True, d)
       else if ticks_early d
            then if timeoutMs < millis (tick d) - start then Some (False, tick d)
                 else wf start timeoutMs (tick d)
            else if timeoutMs < millis d - start then Some (False, d)
                 else wf start timeoutMs (tick d)) = Some y"
  have "y = (True, d) \<or> y = (False, tick d) \<or> y = (False, d) \<or>
      wf start timeoutMs (tick d) = Some y"
    using eq by (auto split: if_splits)
  moreover have "same_driver d (snd y)" if "wf start timeoutMs (tick d) = Some y"
    by (rule same_driver_trans [OF same_driver_tick IH [OF that]])
  ultimately show "same_driver d (snd y)"
    using same_driver_refl [of d] same_driver_tick [of d] by auto
qed

lemma readPayload_keeps:
  assumes "readPayload s T respLen n buf d = Some y"
  shows "same_driver d (snd (snd (snd y)))"
proof (rule readPayload.raw_induct
    [where P = "\<lambda>s T respLen n buf d y. same_driver d (snd (snd (snd y)))", OF _ assms])
  fix rp :: "u32 \<Rightarrow> u32 \<Rightarrow> u8 \<Rightarrow> u8 \<Rightarrow> bytes \<Rightarrow> cr95hf \<Rightarrow> (bool \<times> u8 \<times> bytes \<times> cr95hf) option"
    and start timeoutMs respLen n buf d y
  assume IH: "\<And>start timeoutMs respLen n buf d y.
      rp start timeoutMs respLen n buf d = Some y \<Longrightarrow> same_driver d (snd (snd (snd y)))"
  assume eq: "(if n < respLen
       then if port_available d
            then rp start timeoutMs respLen (n + 1)
                  (buf(unat n := fst (port_read d))) (snd (port_read d))
            else if ticks_early d
                 then if timeoutMs < millis (tick d) - start then Some (False, n, buf, tick d)
                      else rp start timeoutMs respLen n buf (tick d)
                 else if timeoutMs < millis d - start then Some (False, n, buf, d)
                      else rp start timeoutMs respLen n buf (tick d)
       else Some (True, n, buf, d)) = Some y"
  have "y = (True, n, buf, d) \<or> y = (False, n, buf, tick d) \<or> y = (False, n, buf, d) \<or>
      rp start timeoutMs respLen n buf (tick d) = Some y \<or>
      rp start timeoutMs respLen (n + 1) (buf(unat n := fst (port_read d))) (snd (port_read d))
        = Some y"
    using eq by (auto split: if_splits)
  moreover have "same_driver d (snd (snd (snd y)))"
    if "rp start timeoutMs respLen n buf (tick d) = Some y"
    by (rule same_driver_trans [OF same_driver_tick IH [OF that]])
  moreover have "same_driver d (snd (snd (snd y)))"
    if "rp start timeoutMs respLen (n + 1) (buf(unat n := fst (port_read d)))
          (snd (port_read d)) = Some y"
    by (rule same_driver_trans [OF same_driver_read IH [OF that]])
  ultimately show "same_driver d (snd (snd (snd y)))"
    using same_driver_refl [of d] same_driver_tick [of d] by auto
qed

lemma readResponse_no_code:
  assumes "waitForByte (millis d) T d = Some (False, d1)"
  shows "readResponse code buf len0 T d = Some (False, code, buf, len0, d1)"
  using assms by (simp add: readResponse_def)

lemma readResponse_no_length:
  assumes "waitForByte (millis d) T d = Some (True, d1)"
    and "waitForByte (millis d) T (snd (port_read d1)) = Some (False, d2)"
  shows "readResponse code buf len0 T d = Some (False, fst (port_read d1), buf, len0, d2)"
  using assms by (simp add: readResponse_def)

lemma readResponse_payload:
  assumes "waitForByte (millis d) T d = Some (True, d1)"
    and "waitForByte (millis d) T (snd (port_read d1)) = Some (True, d2)"
    and "readPayload (millis d) T (fst (port_read d2)) 0 buf (snd (port_read d2))
           = Some (g, n, b, d3)"
  shows "readResponse code buf len0 T d =
           Some (g, fst (port_read d1), b, if g then n else len0, d3)"
  using assms by (simp add: readResponse_def)

lemma readResponse_keeps:
  assumes "readResponse code buf len0 T d = Some (got, c, b, n, d')"
  shows "same_driver d d'"
proof (cases "waitForByte (millis d) T d")
  case None
  then show ?thesis using assms by (simp add: readResponse_def)
next
  case (Some r1)
  obtain g1 d1 where r1: "r1 = (g1, d1)" by (cases r1)
  note w1 = Some [unfolded r1]
  have s1: "same_driver d d1" using waitForByte_keeps [OF w1] by simp
  show ?thesis
  proof (cases g1)
    case False
    then have "waitForByte (millis d) T d = Some (False, d1)" using w1 by simp
    then show ?thesis using assms readResponse_no_code s1 by simp
  next
    case True
    then have g1: "waitForByte (millis d) T d = Some (True, d1)" using w1 by simp
    show ?thesis
    proof (cases "waitForByte (millis d) T (snd (port_read d1))")
      case None
      then show ?thesis using assms g1 by (simp add: readResponse_def)
    next
      case (Some r2)
      obtain g2 d2 where r2: "r2 = (g2, d2)" by (cases r2)
      note w2 = Some [unfolded r2]
      have "same_driver (snd (port_read d1)) d2" using waitForByte_keeps [OF w2] by simp
      then have s2: "same_driver d d2"
        by (rule same_driver_trans [OF same_driver_trans [OF s1 same_driver_read]])
      show ?thesis
      proof (cases g2)
        case False
        then have "waitForByte (millis d) T (snd (port_read d1)) = Some (False, d2)"
          using w2 by simp
        then show ?thesis
          using assms readResponse_no_length [OF g1] s2 by simp
      next
        case True
        then have g2: "waitForByte (millis d) T (snd (port_read d1)) = Some (True, d2)"
          using w2 by simp
        show ?thesis
        proof (cases "readPayload (millis d) T (fst (port_read d2)) 0 buf (snd (port_read d2))")
          case None
          then show ?thesis using assms g1 g2 by (simp add: readResponse_def)
        next
          case (Some r3)
          obtain g3 n3 b3 d3 where r3: "r3 = (g3, n3, b3, d3)" by (cases r3)
          note w3 = Some [unfolded r3]
          have "same_driver (snd (port_read d2)) d3" using readPayload_keeps [OF w3] by simp
          then have s3: "same_driver d d3"
            by (rule same_driver_trans [OF same_driver_trans [OF s2 same_driver_read]])
          show ?thesis
            using assms readResponse_payload [OF g1 g2 w3] s3
            by simp
        qed
      qed
    qed
  qed
qed

lemma foldl_max_ge: "c \<le> foldl max c (ts :: nat list)"
  by (induction ts arbitrary: c) (auto intro: order_trans [OF max.cobounded1])

lemma foldl_max_le: "c \<le> D \<Longrightarrow> \<forall>t \<in> set ts. t \<le> D \<Longrightarrow> foldl max c (ts :: nat list) \<le> D"
  by (induction ts arbitrary: c) auto

lemma recv_clock:
  "clock_ms d \<le> clock_ms (recv k d)"
  "arrive_by D k (port_rx d) \<Longrightarrow> clock_ms d \<le> D \<Longrightarrow> clock_ms (recv k d) \<le> D"
  by (auto simp: recv_def arrive_by_def foldl_max_ge intro!: foldl_max_le)

lemma recv_recv: "recv j (recv k d) = recv (k + j) d"
proof -
  have "drop j (drop k (port_rx d)) = drop (k + j) (port_rx d)" by (simp add: add.commute)
  then show ?thesis by (simp add: recv_def take_add del: drop_drop)
qed

lemma recv_1_1: "recv 1 (recv 1 d) = recv 2 d"
  using recv_recv [of 1 1 d] by (simp only: one_add_one)

lemma arrive_by_second: "arrive_by D 1 (drop 1 xs) \<Longrightarrow> 1 < length xs \<and> drop 1 xs ! 0 = xs ! 1"
  by (cases xs) (auto simp: arrive_by_def)

lemma port_rx_recv: "port_rx (recv k d) = drop k (port_rx d)"
  by (simp add: recv_def)

lemma arrive_by_add:
  "arrive_by D (j + k) xs \<longleftrightarrow> arrive_by D j xs \<and> arrive_by D k (drop j xs)"
  by (auto simp: arrive_by_def take_add)


lemma delivered_stages:
  "delivered D xs \<longleftrightarrow>
     arrive_by D 1 xs \<and> arrive_by D 1 (drop 1 xs) \<and>
     arrive_by D (unat (snd (xs ! 1))) (drop 2 xs)"
proof -
  have "arrive_by D 2 xs \<longleftrightarrow> arrive_by D 1 xs \<and> arrive_by D 1 (drop 1 xs)"
    using arrive_by_add [of D 1 1 xs] by (simp add: numeral_2_eq_2)
  moreover have "arrive_by D (2 + k) xs \<longleftrightarrow> arrive_by D 2 xs \<and> arrive_by D k (drop 2 xs)" for k
    by (rule arrive_by_add)
  ultimately show ?thesis unfolding delivered_def by blast
qed


text \<open>
  Whatever the line and the clock do, \<open>readResponse\<close> returns when \<open>timeoutMs\<close>
  is below \<open>0xFFFFFFFE\<close>; it returns true only if every byte of the response has
  arrived by \<open>timeoutMs + 1\<close> milliseconds after the start, and a false return leaves
  \<open>len\<close> as it was.
\<close>

lemma readResponse_outcome:
  assumes "unat T < 2 ^ 32 - 2" "D = clock_ms d + unat T + 1"
  shows "\<exists>g c b n d'. readResponse code buf len0 T d = Some (g, c, b, n, d') \<and>
           (g \<longrightarrow> delivered D (port_rx d)) \<and> (\<not> g \<longrightarrow> n = len0)"
proof -
  have m: "millis d = of_nat (clock_ms d)" by (simp add: millis_def)
  have le: "clock_ms d \<le> D" using assms(2) by simp
  from waitForByte_outcome [OF assms(1) order_refl, of d] obtain g1 d1
    where w1': "waitForByte (millis d) T d = Some (g1, d1)"
      and s1: "g1 \<longrightarrow> arrive_by D 1 (port_rx d) \<and> snd (port_read d1) = recv 1 d"
    unfolding m assms(2) by auto
  show ?thesis
  proof (cases g1)
    case False
    then have "waitForByte (millis d) T d = Some (False, d1)" using w1' by simp
    from readResponse_no_code [OF this] show ?thesis by auto
  next
    case True
    then have w1: "waitForByte (millis d) T d = Some (True, d1)"
      and a1: "arrive_by D 1 (port_rx d)" and r1: "snd (port_read d1) = recv 1 d"
      using w1' s1 by simp_all
    have le1: "clock_ms (recv 1 d) \<le> clock_ms d + unat T + 1"
      using recv_clock(2) [OF a1 le] by (simp only: assms(2))
    from waitForByte_outcome [OF assms(1) recv_clock(1) le1] obtain g2 d2
      where w2': "waitForByte (millis d) T (snd (port_read d1)) = Some (g2, d2)"
        and s2: "g2 \<longrightarrow> arrive_by D 1 (port_rx (recv 1 d)) \<and>
                   fst (port_read d2) = snd (port_rx (recv 1 d) ! 0) \<and>
                   snd (port_read d2) = recv 1 (recv 1 d)"
      unfolding m r1 assms(2) by auto
    show ?thesis
    proof (cases g2)
      case False
      then have "waitForByte (millis d) T (snd (port_read d1)) = Some (False, d2)"
        using w2' by simp
      from readResponse_no_length [OF w1 this] show ?thesis by auto
    next
      case True
      then have w2: "waitForByte (millis d) T (snd (port_read d1)) = Some (True, d2)"
        and a2': "arrive_by D 1 (port_rx (recv 1 d))"
        and c2: "fst (port_read d2) = snd (port_rx (recv 1 d) ! 0)"
        and r2': "snd (port_read d2) = recv 1 (recv 1 d)"
        using w2' s2 by simp_all
      have a2: "arrive_by D 1 (drop 1 (port_rx d))" using a2' by (simp add: port_rx_recv)
      have r2: "snd (port_read d2) = recv 2 d"
        using r2' by (simp only: recv_1_1)
      have c2': "fst (port_read d2) = snd (port_rx d ! 1)"
        using c2 arrive_by_second [OF a2] by (simp add: port_rx_recv)
      have le2: "clock_ms (recv 2 d) \<le> clock_ms d + unat T + 1"
        using recv_clock(2) [OF a2' le1 [folded assms(2)]] by (simp only: recv_1_1 assms(2))
      from readPayload_outcome [OF assms(1) _ recv_clock(1) le2,
          of 0 "snd (port_rx d ! 1)" buf]
      obtain g3 n' buf' d' where
        w3: "readPayload (millis d) T (fst (port_read d2)) 0 buf (snd (port_read d2))
           = Some (g3, n', buf', d')"
        and s3: "g3 \<longrightarrow> arrive_by D (unat (snd (port_rx d ! 1))) (drop 2 (port_rx d))"
        unfolding m c2' r2 assms(2) by (auto simp: port_rx_recv)
      have "g3 \<longrightarrow> delivered D (port_rx d)"
        using s3 a1 a2 unfolding delivered_stages by simp
      then show ?thesis
        using readResponse_payload [OF w1 w2 w3] by auto
    qed
  qed
qed


lemma readResponse_total:
  assumes "unat T < 2 ^ 32 - 2"
  shows "\<exists>got c b n d'. readResponse code buf len0 T d = Some (got, c, b, n, d')"
  using readResponse_outcome
      [where d = d and code = code and buf = buf and ?len0.0 = len0, OF assms refl]
  by blast

lemma flushRx_keeps: "same_driver d (flushRx d) \<and> clock_ms (flushRx d) = clock_ms d"
proof (induction d rule: flushRx.induct)
  case (1 d)
  show ?case
  proof (cases "port_available d")
    case True
    have "clock_ms (snd (port_read d)) = clock_ms d"
      by (simp add: port_read_def split: list.splits)
    with 1 [OF True] True same_driver_read [of d] show ?thesis
      by (subst (1 2) flushRx.simps) (auto simp: same_driver_def)
  next
    case False
    then show ?thesis by (subst (1 2) flushRx.simps) (simp add: same_driver_refl)
  qed
qed

lemma sendFrame_log:
  "port_tx (sendFrame f d) = port_tx d @ [frame_bytes f]"
  "lastATQA (sendFrame f d) = lastATQA d"
  "txFrame (sendFrame f d) = txFrame d"
  "clock_ms (sendFrame f d) = clock_ms d"
  using flushRx_keeps [of d] by (simp_all add: sendFrame_def port_write_def same_driver_def)

lemmas run_defs =
  fresh_driver_def on_line_def on_line_early_def new_Frame_def stack_u8_def ticks_early_def
  port_available_def port_read_def port_write_def tick_def millis_def

text \<open>
  With a timeout of 20 ms, a status code arriving 7 ms, a length byte 14 ms and one
  payload byte 21 ms after the start, a clock that ticks between \<open>available()\<close>
  and \<open>millis()\<close> makes the call give up at the payload stage, while a clock that
  ticks after \<open>millis()\<close> is read lets the same call succeed (shown further down):
  a byte that arrives in the millisecond after the timeout is accepted or refused
  according to where in the turn of the loop the clock ticks.
\<close>

lemma readResponse_late_byte_refused:
  "\<exists>d'. readResponse stack_u8 stack_buf 16 20 (on_line_early [(7, 0x80), (14, 0x01), (21, 0xAA)])
     = Some (False, 0x80, stack_buf, 16, d')"
  by (simp add: readResponse_def waitForByte.simps readPayload.simps run_defs)




text \<open>
  Claim C7 does not hold of the code: \<open>readResponse\<close> never reads the capacity that
  its caller passes in \<open>len\<close>. Called the way \<open>selectCL1\<close> calls it, with a buffer
  of 8 bytes and \<open>len = 8\<close>, on a response whose length byte is 9, it stores nine
  payload bytes, the last at index 8, one past the end of the buffer, and returns
  \<open>len = 9\<close>.
\<close>

theorem readResponse_writes_past_capacity:
  "readResponse stack_u8 stack_buf 8 50 (on_line line_overrun) =
     Some (True, 0x80,
       stack_buf(0 := 0x01, 1 := 0x02, 2 := 0x03, 3 := 0x04, 4 := 0x05, 5 := 0x06,
                 6 := 0x07, 7 := 0x08, 8 := 0x09),
       9, fresh_driver\<lparr>clock_ms := 1\<rparr>)"
  by (simp add: readResponse_def waitForByte.simps readPayload.simps run_defs line_overrun_def)
section \<open>Discovery: wake, anticollision, select\<close>

text \<open>Every exchange writes its frame and returns: the timeouts of 20 and 50 ms are
  below \<open>0xFFFFFFFE\<close>, so no read can wait for ever.\<close>

lemma sent_log:
  "port_tx (sent f d) = port_tx d @ [frame_bytes f]"
  "lastATQA (sent f d) = lastATQA d"
  "txFrame (sent f d) = f"
  "clock_ms (sent f d) = clock_ms d"
  by (simp_all add: sent_def sendFrame_log)

lemma response_log:
  assumes "readResponse c b n T (sent f d) = Some (got, c', b', n', d')"
  shows "port_tx d' = port_tx d @ [frame_bytes f]" "lastATQA d' = lastATQA d"
  using readResponse_keeps [OF assms] by (simp_all add: same_driver_def sent_log)

lemma timeouts_bounded: "unat (20 :: u32) < 2 ^ 32 - 2" "unat (50 :: u32) < 2 ^ 32 - 2"
  by simp_all

lemma sendReqWup_sent:
  "sendReqWup cmd atqa1 atqa2 d = do {
     (got, code, buf, n, d) \<leftarrow> readResponse stack_u8 stack_buf 16 20
        (sent (if cmd = ISO14443A_WUPA then buildWUPA (txFrame d) else buildREQA (txFrame d)) d);
     if \<not> got then Some (False, atqa1, atqa2, d)
     else if code \<noteq> CR95HF_RSP_DATA \<or> n < 2 then Some (False, atqa1, atqa2, d)
     else Some (True, buf 0, buf 1, d)
   }"
  by (simp add: sendReqWup_def sent_def)

lemma anticollCL1_sent:
  "anticollCL1 cl1 d = do {
     (got, code, buf, n, d) \<leftarrow> readResponse stack_u8 stack_buf 16 50
        (sent (buildAnticollCL1 (txFrame d)) d);
     if \<not> got then Some (False, cl1, d)
     else if code \<noteq> CR95HF_RSP_DATA \<or> n < 5 then Some (False, cl1, d)
     else Some (True, memcpy cl1 buf 5, d)
   }"
  by (simp add: anticollCL1_def sent_def)

lemma anticollCL2_sent:
  "anticollCL2 cl2 d = do {
     (got, code, buf, n, d) \<leftarrow> readResponse stack_u8 stack_buf 16 50
        (sent (buildAnticollCL2 (txFrame d)) d);
     if \<not> got then Some (False, cl2, d)
     else if code \<noteq> CR95HF_RSP_DATA \<or> n < 5 then Some (False, cl2, d)
     else Some (True, memcpy cl2 buf 5, d)
   }"
  by (simp add: anticollCL2_def sent_def)

lemma selectCL1_sent:
  "selectCL1 cl1 sak d = do {
     (got, code, buf, n, d) \<leftarrow> readResponse stack_u8 stack_buf 8 50
        (sent (buildSelectCL1 cl1 (txFrame d)) d);
     if \<not> got then Some (False, sak, d)
     else if code \<noteq> CR95HF_RSP_DATA \<or> n < 1 then Some (False, sak, d)
     else Some (True, buf 0, d)
   }"
  by (simp add: selectCL1_def sent_def)

lemma selectCL2_sent:
  "selectCL2 cl2 sak d = do {
     (got, code, buf, n, d) \<leftarrow> readResponse stack_u8 stack_buf 8 50
        (sent (buildSelectCL2 cl2 (txFrame d)) d);
     if \<not> got then Some (False, sak, d)
     else if code \<noteq> CR95HF_RSP_DATA \<or> n < 1 then Some (False, sak, d)
     else Some (True, buf 0, d)
   }"
  by (simp add: selectCL2_def sent_def)

lemma anticollCL1_step:
  "\<exists>ok cl d'. anticollCL1 cl1 d = Some (ok, cl, d')
     \<and> port_tx d' = port_tx d @ [[0x04, 0x03, 0x93, 0x20, 0x08]] \<and> lastATQA d' = lastATQA d"
proof -
  obtain got c b n d' where r: "readResponse stack_u8 stack_buf 16 50
      (sent (buildAnticollCL1 (txFrame d)) d) = Some (got, c, b, n, d')"
    using readResponse_total [OF timeouts_bounded(2)] by blast
  show ?thesis
    unfolding anticollCL1_sent using response_log [OF r] by (auto simp: r frame_bytes_fixed)
qed

lemma anticollCL2_step:
  "\<exists>ok cl d'. anticollCL2 cl2 d = Some (ok, cl, d')
     \<and> port_tx d' = port_tx d @ [[0x04, 0x03, 0x95, 0x20, 0x08]] \<and> lastATQA d' = lastATQA d"
proof -
  obtain got c b n d' where r: "readResponse stack_u8 stack_buf 16 50
      (sent (buildAnticollCL2 (txFrame d)) d) = Some (got, c, b, n, d')"
    using readResponse_total [OF timeouts_bounded(2)] by blast
  show ?thesis
    unfolding anticollCL2_sent using response_log [OF r] by (auto simp: r frame_bytes_fixed)
qed

lemma selectCL1_step:
  "\<exists>ok s d'. selectCL1 cl sak d = Some (ok, s, d')
     \<and> port_tx d' = port_tx d @ [[0x04, 0x08, 0x93, 0x70, cl 0, cl 1, cl 2, cl 3, cl 4, 0x28]]
     \<and> lastATQA d' = lastATQA d"
proof -
  obtain got c b n d' where r: "readResponse stack_u8 stack_buf 8 50
      (sent (buildSelectCL1 cl (txFrame d)) d) = Some (got, c, b, n, d')"
    using readResponse_total [OF timeouts_bounded(2)] by blast
  show ?thesis
    unfolding selectCL1_sent using response_log [OF r] by (auto simp: r frame_bytes_fixed)
qed

lemma selectCL2_step:
  "\<exists>ok s d'. selectCL2 cl sak d = Some (ok, s, d')
     \<and> port_tx d' = port_tx d @ [[0x04, 0x08, 0x95, 0x70, cl 0, cl 1, cl 2, cl 3, cl 4, 0x28]]
     \<and> lastATQA d' = lastATQA d"
proof -
  obtain got c b n d' where r: "readResponse stack_u8 stack_buf 8 50
      (sent (buildSelectCL2 cl (txFrame d)) d) = Some (got, c, b, n, d')"
    using readResponse_total [OF timeouts_bounded(2)] by blast
  show ?thesis
    unfolding selectCL2_sent using response_log [OF r] by (auto simp: r frame_bytes_fixed)
qed

text \<open>
  What each step makes of the response it reads. \<open>sendReqWup\<close> takes it for a valid
  ATQA when \<open>readResponse\<close> returned true, the status code is the data status and
  there are at least 2 payload bytes; the anticollision steps ask for the data status
  and at least 5 bytes, the select steps for the data status and at least 1 byte.
\<close>

lemma sendReqWup_response:
  assumes "readResponse stack_u8 stack_buf 16 20
      (sent (if cmd = ISO14443A_WUPA then buildWUPA (txFrame d) else buildREQA (txFrame d)) d)
      = Some (g, c, b, n, d')"
  shows "sendReqWup cmd atqa1 atqa2 d =
      Some (if atqa_response g c n then (True, b 0, b 1, d') else (False, atqa1, atqa2, d'))"
proof -
  have "n < 2 \<longleftrightarrow> \<not> 2 \<le> unat n" by (auto simp: word_less_nat_alt)
  then show ?thesis
    unfolding sendReqWup_sent by (auto simp: assms atqa_response_def)
qed

lemma anticollCL1_response:
  assumes "readResponse stack_u8 stack_buf 16 50 (sent (buildAnticollCL1 (txFrame d)) d)
      = Some (g, c, b, n, d')"
  shows "anticollCL1 cl d =
      Some (if g \<and> c = CR95HF_RSP_DATA \<and> 5 \<le> unat n then (True, memcpy cl b 5, d')
            else (False, cl, d'))"
proof -
  have "n < 5 \<longleftrightarrow> \<not> 5 \<le> unat n" by (auto simp: word_less_nat_alt)
  then show ?thesis
    unfolding anticollCL1_sent by (auto simp: assms)
qed

lemma anticollCL2_response:
  assumes "readResponse stack_u8 stack_buf 16 50 (sent (buildAnticollCL2 (txFrame d)) d)
      = Some (g, c, b, n, d')"
  shows "anticollCL2 cl d =
      Some (if g \<and> c = CR95HF_RSP_DATA \<and> 5 \<le> unat n then (True, memcpy cl b 5, d')
            else (False, cl, d'))"
proof -
  have "n < 5 \<longleftrightarrow> \<not> 5 \<le> unat n" by (auto simp: word_less_nat_alt)
  then show ?thesis
    unfolding anticollCL2_sent by (auto simp: assms)
qed

lemma selectCL1_response:
  assumes "readResponse stack_u8 stack_buf 8 50 (sent (buildSelectCL1 cl (txFrame d)) d)
      = Some (g, c, b, n, d')"
  shows "selectCL1 cl sak d =
      Some (if g \<and> c = CR95HF_RSP_DATA \<and> 1 \<le> unat n then (True, b 0, d') else (False, sak, d'))"
proof -
  have "n < 1 \<longleftrightarrow> \<not> 1 \<le> unat n" by (auto simp: word_less_nat_alt)
  then show ?thesis
    unfolding selectCL1_sent by (auto simp: assms)
qed

lemma selectCL2_response:
  assumes "readResponse stack_u8 stack_buf 8 50 (sent (buildSelectCL2 cl (txFrame d)) d)
      = Some (g, c, b, n, d')"
  shows "selectCL2 cl sak d =
      Some (if g \<and> c = CR95HF_RSP_DATA \<and> 1 \<le> unat n then (True, b 0, d') else (False, sak, d'))"
proof -
  have "n < 1 \<longleftrightarrow> \<not> 1 \<le> unat n" by (auto simp: word_less_nat_alt)
  then show ?thesis
    unfolding selectCL2_sent by (auto simp: assms)
qed

lemma memcpy_first:
  "memcpy dst src 5 0 = src 0" "memcpy dst src 5 1 = src 1" "memcpy dst src 5 2 = src 2"
  "memcpy dst src 5 3 = src 3" "memcpy dst src 5 4 = src 4" "memcpy dst src 5 (Suc 0) = src (Suc 0)"
  by (simp_all add: memcpy_def)

lemma getUID_after_wake:
  assumes wake: "wakeUp d = Some (True, a1, a2, d1)"
  shows "\<exists>ok uid' n s d'. iso14443aGetUID uid uidLen sakOut d = Some (ok, uid', n, s, d')
           \<and> lastATQA d' = (a1, a2)
           \<and> take (Suc (length (port_tx d1))) (port_tx d')
               = port_tx d1 @ [[0x04, 0x03, 0x93, 0x20, 0x08]]"
proof -
  obtain ok3 cl1 d2 where ac1: "anticollCL1 stack_buf (d1\<lparr>lastATQA := (a1, a2)\<rparr>) = Some (ok3, cl1, d2)"
    and l2: "lastATQA d2 = (a1, a2)"
    and t2: "port_tx d2 = port_tx d1 @ [[0x04, 0x03, 0x93, 0x20, 0x08]]"
    using anticollCL1_step [of stack_buf "d1\<lparr>lastATQA := (a1, a2)\<rparr>"] by auto
  obtain ok4 sak1 d3 where sel1: "selectCL1 cl1 0 d2 = Some (ok4, sak1, d3)"
    and l3: "lastATQA d3 = (a1, a2)"
    and t3: "port_tx d3 = port_tx d2 @
        [[0x04, 0x08, 0x93, 0x70, cl1 0, cl1 1, cl1 2, cl1 3, cl1 4, 0x28]]"
    using selectCL1_step [of cl1 0 d2] l2 by auto
  obtain ok5 cl2 d4 where ac2: "anticollCL2 stack_buf d3 = Some (ok5, cl2, d4)"
    and l4: "lastATQA d4 = (a1, a2)"
    and t4: "port_tx d4 = port_tx d3 @ [[0x04, 0x03, 0x95, 0x20, 0x08]]"
    using anticollCL2_step [of stack_buf d3] l3 by auto
  obtain ok6 sak2 d5 where sel2: "selectCL2 cl2 0 d4 = Some (ok6, sak2, d5)"
    and l5: "lastATQA d5 = (a1, a2)"
    and t5: "port_tx d5 = port_tx d4 @
        [[0x04, 0x08, 0x95, 0x70, cl2 0, cl2 1, cl2 2, cl2 3, cl2 4, 0x28]]"
    using selectCL2_step [of cl2 0 d4] l4 by auto
  show ?thesis
    using l2 l3 l4 l5 t2 t3 t4 t5
    by (auto simp: iso14443aGetUID_def Let_def wake ac1 sel1 ac2 sel2)
qed

subsection \<open>Runs on the scripted lines\<close>

lemmas step_defs =
  wakeUp_def sendReqWup_def anticollCL1_def selectCL1_def anticollCL2_def selectCL2_def
  sendFrame_def flushRx.simps readResponse_def waitForByte.simps readPayload.simps
  fresh_driver_def on_line_def stack_u8_def ticks_early_def
  port_available_def port_read_def port_write_def tick_def millis_def
  frame_bytes_fixed cr95hf_consts memcpy_def sent_def

lemma first_bytes:
  assumes "map c [0..<5] = [b0, b1, b2, b3, b4]"
  shows "c 0 = b0" "c 1 = b1" "c 2 = b2" "c 3 = b3" "c 4 = b4" "c (Suc 0) = b1"
  using assms by (simp_all add: upt5)

lemma run_single:
  "\<exists>d1 b1 d2 s1 d3.
     wakeUp (on_line line_single) = Some (True, 0x04, 0x00, d1) \<and>
     readResponse stack_u8 stack_buf 16 50
       (sent (buildAnticollCL1 (txFrame d1)) (d1\<lparr>lastATQA := (0x04, 0x00)\<rparr>))
       = Some (True, CR95HF_RSP_DATA, b1, 5, d2) \<and>
     map b1 [0..<5] = [0xDE, 0xAD, 0xBE, 0xEF, 0x22] \<and>
     readResponse stack_u8 stack_buf 8 50
       (sent (buildSelectCL1 (memcpy stack_buf b1 5) (txFrame d2)) d2)
       = Some (True, CR95HF_RSP_DATA, s1, 1, d3) \<and>
     s1 0 = 0x08"
  by (simp add: step_defs line_single_def upt_rec)

lemma run_double:
  "\<exists>d1 b1 d2 s1 d3 b2 d4 s2 d5.
     wakeUp (on_line line_double) = Some (True, 0x44, 0x00, d1) \<and>
     readResponse stack_u8 stack_buf 16 50
       (sent (buildAnticollCL1 (txFrame d1)) (d1\<lparr>lastATQA := (0x44, 0x00)\<rparr>))
       = Some (True, CR95HF_RSP_DATA, b1, 5, d2) \<and>
     map b1 [0..<5] = [0x88, 0x04, 0xA1, 0xB2, 0x9F] \<and>
     readResponse stack_u8 stack_buf 8 50
       (sent (buildSelectCL1 (memcpy stack_buf b1 5) (txFrame d2)) d2)
       = Some (True, CR95HF_RSP_DATA, s1, 1, d3) \<and>
     s1 0 = 0x04 \<and>
     readResponse stack_u8 stack_buf 16 50 (sent (buildAnticollCL2 (txFrame d3)) d3)
       = Some (True, CR95HF_RSP_DATA, b2, 5, d4) \<and>
     map b2 [0..<5] = [0xC3, 0xD4, 0xE5, 0xF6, 0x04] \<and>
     readResponse stack_u8 stack_buf 8 50
       (sent (buildSelectCL2 (memcpy stack_buf b2 5) (txFrame d4)) d4)
       = Some (True, CR95HF_RSP_DATA, s2, 1, d5) \<and>
     s2 0 = 0x20"
  by (simp add: step_defs line_double_def upt_rec)

lemma run_fallback:
  "\<exists>b1 d1 b2 d2 b3 d3 b4 d4.
     readResponse stack_u8 stack_buf 16 20
       (sent (buildWUPA (txFrame (on_line line_fallback))) (on_line line_fallback))
       = Some (True, 0x87, b1, 0, d1) \<and>
     readResponse stack_u8 stack_buf 16 20 (sent (buildREQA (txFrame d1)) d1)
       = Some (True, CR95HF_RSP_DATA, b2, 2, d2) \<and>
     b2 0 = 0x04 \<and> b2 1 = 0x00 \<and>
     readResponse stack_u8 stack_buf 16 50
       (sent (buildAnticollCL1 (txFrame d2)) (d2\<lparr>lastATQA := (b2 0, b2 1)\<rparr>))
       = Some (True, CR95HF_RSP_DATA, b3, 5, d3) \<and>
     map b3 [0..<5] = [0xDE, 0xAD, 0xBE, 0xEF, 0x22] \<and>
     readResponse stack_u8 stack_buf 8 50
       (sent (buildSelectCL1 (memcpy stack_buf b3 5) (txFrame d3)) d3)
       = Some (True, CR95HF_RSP_DATA, b4, 1, d4) \<and>
     b4 0 = 0x08"
  by (simp add: step_defs line_fallback_def upt_rec)

lemma run_wupa_short:
  "\<exists>b1 d1 b2 d2 b3 d3 b4 d4.
     readResponse stack_u8 stack_buf 16 20
       (sent (buildWUPA (txFrame (on_line line_wupa_short))) (on_line line_wupa_short))
       = Some (True, CR95HF_RSP_DATA, b1, 1, d1) \<and>
     readResponse stack_u8 stack_buf 16 20 (sent (buildREQA (txFrame d1)) d1)
       = Some (True, CR95HF_RSP_DATA, b2, 2, d2) \<and>
     b2 0 = 0x04 \<and> b2 1 = 0x00 \<and>
     readResponse stack_u8 stack_buf 16 50
       (sent (buildAnticollCL1 (txFrame d2)) (d2\<lparr>lastATQA := (b2 0, b2 1)\<rparr>))
       = Some (True, CR95HF_RSP_DATA, b3, 5, d3) \<and>
     map b3 [0..<5] = [0xDE, 0xAD, 0xBE, 0xEF, 0x22] \<and>
     readResponse stack_u8 stack_buf 8 50
       (sent (buildSelectCL1 (memcpy stack_buf b3 5) (txFrame d3)) d3)
       = Some (True, CR95HF_RSP_DATA, b4, 1, d4) \<and>
     b4 0 = 0x08"
  by (simp add: step_defs line_wupa_short_def upt_rec)

lemma run_wupa_not_data:
  "\<exists>b1 d1 b2 d2 b3 d3 b4 d4.
     readResponse stack_u8 stack_buf 16 20
       (sent (buildWUPA (txFrame (on_line line_wupa_not_data))) (on_line line_wupa_not_data))
       = Some (True, 0x90, b1, 2, d1) \<and>
     readResponse stack_u8 stack_buf 16 20 (sent (buildREQA (txFrame d1)) d1)
       = Some (True, CR95HF_RSP_DATA, b2, 2, d2) \<and>
     b2 0 = 0x04 \<and> b2 1 = 0x00 \<and>
     readResponse stack_u8 stack_buf 16 50
       (sent (buildAnticollCL1 (txFrame d2)) (d2\<lparr>lastATQA := (b2 0, b2 1)\<rparr>))
       = Some (True, CR95HF_RSP_DATA, b3, 5, d3) \<and>
     map b3 [0..<5] = [0xDE, 0xAD, 0xBE, 0xEF, 0x22] \<and>
     readResponse stack_u8 stack_buf 8 50
       (sent (buildSelectCL1 (memcpy stack_buf b3 5) (txFrame d3)) d3)
       = Some (True, CR95HF_RSP_DATA, b4, 1, d4) \<and>
     b4 0 = 0x08"
  by (simp add: step_defs line_wupa_not_data_def upt_rec)

lemma run_no_tag:
  "\<exists>b1 d1 b2 d2.
     readResponse stack_u8 stack_buf 16 20
       (sent (buildWUPA (txFrame (on_line line_no_tag))) (on_line line_no_tag))
       = Some (True, 0x87, b1, 0, d1) \<and>
     readResponse stack_u8 stack_buf 16 20 (sent (buildREQA (txFrame d1)) d1)
       = Some (True, 0x87, b2, 0, d2)"
  by (simp add: step_defs line_no_tag_def)

lemma run_wupa_answers:
  "\<exists>b1 d1.
     readResponse stack_u8 stack_buf 16 20
       (sent (buildWUPA (txFrame (on_line line_single))) (on_line line_single))
       = Some (True, CR95HF_RSP_DATA, b1, 2, d1) \<and>
     b1 0 = 0x04 \<and> b1 1 = 0x00"
  by (simp add: step_defs line_single_def)

lemma run_short_anticoll:
  "\<exists>d1 buf d2.
     wakeUp (on_line line_short_anticoll) = Some (True, 0x04, 0x00, d1) \<and>
     readResponse stack_u8 stack_buf 16 50
       (sent (buildAnticollCL1 (txFrame d1)) (d1\<lparr>lastATQA := (0x04, 0x00)\<rparr>))
       = Some (True, CR95HF_RSP_DATA, buf, 3, d2)"
  by (simp add: step_defs line_short_anticoll_def)

lemma run_bad_bcc:
  "\<exists>d1 buf d2 d3.
     wakeUp (on_line line_bad_bcc) = Some (True, 0x04, 0x00, d1) \<and>
     readResponse stack_u8 stack_buf 16 50
       (sent (buildAnticollCL1 (txFrame d1)) (d1\<lparr>lastATQA := (0x04, 0x00)\<rparr>))
       = Some (True, CR95HF_RSP_DATA, buf, 5, d2) \<and>
     map buf [0..<5] = [0xDE, 0xAD, 0xBE, 0xEF, 0x00] \<and>
     selectCL1 (memcpy stack_buf buf 5) 0 d2 = Some (True, 0x08, d3)"
  by (simp add: step_defs line_bad_bcc_def upt_rec)

lemma run_anticoll2_fails:
  "\<exists>d1 cl1 d2 d3 cl2 d4.
     wakeUp (on_line line_anticoll2_fails) = Some (True, 0x44, 0x00, d1) \<and>
     anticollCL1 stack_buf (d1\<lparr>lastATQA := (0x44, 0x00)\<rparr>) = Some (True, cl1, d2) \<and>
     map cl1 [0..<5] = [0x88, 0x04, 0xA1, 0xB2, 0x9F] \<and>
     selectCL1 cl1 0 d2 = Some (True, 0x04, d3) \<and>
     anticollCL2 stack_buf d3 = Some (False, cl2, d4)"
  by (simp add: step_defs line_anticoll2_fails_def upt_rec)

lemma run_select2_fails:
  "\<exists>d1 cl1 d2 d3 cl2 d4 d5.
     wakeUp (on_line line_select2_fails) = Some (True, 0x44, 0x00, d1) \<and>
     anticollCL1 stack_buf (d1\<lparr>lastATQA := (0x44, 0x00)\<rparr>) = Some (True, cl1, d2) \<and>
     map cl1 [0..<5] = [0x88, 0x04, 0xA1, 0xB2, 0x9F] \<and>
     selectCL1 cl1 0 d2 = Some (True, 0x04, d3) \<and>
     anticollCL2 stack_buf d3 = Some (True, cl2, d4) \<and>
     selectCL2 cl2 0 d4 = Some (False, 0, d5)"
  by (simp add: step_defs line_select2_fails_def upt_rec)

lemma run_stale_single:
  "\<exists>b1 d1 cl1 d3 d4.
     readResponse stack_u8 stack_buf 16 20
       (sent (buildWUPA (txFrame ((on_line line_single)\<lparr>lastATQA := (0x44, 0x00)\<rparr>)))
          ((on_line line_single)\<lparr>lastATQA := (0x44, 0x00)\<rparr>))
       = Some (True, CR95HF_RSP_DATA, b1, 2, d1) \<and>
     b1 0 = 0x04 \<and> b1 1 = 0x00 \<and>
     anticollCL1 stack_buf (d1\<lparr>lastATQA := (b1 0, b1 1)\<rparr>) = Some (True, cl1, d3) \<and>
     cl1 0 = 0xDE \<and>
     selectCL1 cl1 0 d3 = Some (True, 0x08, d4)"
  by (simp add: step_defs line_single_def)

lemma run_stale_no_tag:
  "\<exists>b1 d1 b2 d2.
     readResponse stack_u8 stack_buf 16 20
       (sent (buildWUPA (txFrame ((on_line line_no_tag)\<lparr>lastATQA := (0x44, 0x00)\<rparr>)))
          ((on_line line_no_tag)\<lparr>lastATQA := (0x44, 0x00)\<rparr>))
       = Some (True, 0x87, b1, 0, d1) \<and>
     readResponse stack_u8 stack_buf 16 20 (sent (buildREQA (txFrame d1)) d1)
       = Some (True, 0x87, b2, 0, d2)"
  by (simp add: step_defs line_no_tag_def)

lemma run_stale_fallback:
  "\<exists>b1 d1 b2 d2 cl1 d3 d4.
     readResponse stack_u8 stack_buf 16 20
       (sent (buildWUPA (txFrame ((on_line line_fallback)\<lparr>lastATQA := (0x44, 0x00)\<rparr>)))
          ((on_line line_fallback)\<lparr>lastATQA := (0x44, 0x00)\<rparr>))
       = Some (True, 0x87, b1, 0, d1) \<and>
     readResponse stack_u8 stack_buf 16 20 (sent (buildREQA (txFrame d1)) d1)
       = Some (True, CR95HF_RSP_DATA, b2, 2, d2) \<and>
     b2 0 = 0x04 \<and> b2 1 = 0x00 \<and>
     anticollCL1 stack_buf (d2\<lparr>lastATQA := (b2 0, b2 1)\<rparr>) = Some (True, cl1, d3) \<and>
     cl1 0 = 0xDE \<and>
     selectCL1 cl1 0 d3 = Some (True, 0x08, d4)"
  by (simp add: step_defs line_fallback_def)

lemma run_stale_short_anticoll:
  "\<exists>b1 d1 cl1 d3.
     readResponse stack_u8 stack_buf 16 20
       (sent (buildWUPA (txFrame ((on_line line_short_anticoll)\<lparr>lastATQA := (0x44, 0x00)\<rparr>)))
          ((on_line line_short_anticoll)\<lparr>lastATQA := (0x44, 0x00)\<rparr>))
       = Some (True, CR95HF_RSP_DATA, b1, 2, d1) \<and>
     b1 0 = 0x04 \<and> b1 1 = 0x00 \<and>
     anticollCL1 stack_buf (d1\<lparr>lastATQA := (b1 0, b1 1)\<rparr>) = Some (False, cl1, d3)"
  by (simp add: step_defs line_short_anticoll_def)

subsection \<open>Properties of iso14443aGetUID\<close>

text \<open>
  Claim C1. Let the wake stage of a discovery run succeed, let the response to the
  cascade-1 anticollision frame have the data status and at least 5 payload bytes (the
  candidate is its first 5 bytes \<open>b1\<close>), and let the response to the cascade-1
  select frame have the data status and at least 1 payload byte (the cascade-1 select
  SAK is its first byte \<open>s1 0\<close>). If the first candidate byte is not \<open>0x88\<close>,
  \<open>iso14443aGetUID\<close> returns true with \<open>uidLen = 4\<close>, uid bytes 0 to 3 equal
  to candidate bytes 0 to 3, and \<open>sak\<close> equal to the cascade-1 select SAK; the call
  ends in the state in which the select response was read, in which the frames
  written since the wake stage are the cascade-1 anticollision and select frames and
  nothing else: no cascade-2 exchange. If the first candidate byte is \<open>0x88\<close> and
  the responses to the cascade-2 anticollision and select frames are of the same
  kinds, with candidate \<open>b2\<close> and SAK \<open>s2 0\<close>, it returns true with
  \<open>uidLen = 7\<close>, uid bytes 0 to 2 equal to bytes 1 to 3 of the cascade-1 candidate,
  uid bytes 3 to 6 equal to bytes 0 to 3 of the cascade-2 candidate, and \<open>sak\<close>
  equal to the cascade-2 select SAK, after writing the four frames in order.
\<close>

theorem getUID_cascade_branch:
  assumes wake: "wakeUp d = Some (True, atqa1, atqa2, d1)"
    and ac1: "readResponse stack_u8 stack_buf 16 50
                (sent (buildAnticollCL1 (txFrame d1)) (d1\<lparr>lastATQA := (atqa1, atqa2)\<rparr>))
              = Some (True, CR95HF_RSP_DATA, b1, n1, d2)"
    and n1: "5 \<le> unat n1"
    and sel1: "readResponse stack_u8 stack_buf 8 50
                 (sent (buildSelectCL1 (memcpy stack_buf b1 5) (txFrame d2)) d2)
               = Some (True, CR95HF_RSP_DATA, s1, m1, d3)"
    and m1: "1 \<le> unat m1"
  shows "(b1 0 \<noteq> ISO14443A_CT \<longrightarrow>
            iso14443aGetUID uid uidLen sakOut d =
              Some (True, uid(0 := b1 0, 1 := b1 1, 2 := b1 2, 3 := b1 3), 4, s1 0, d3) \<and>
            port_tx d3 = port_tx d1 @
              [[0x04, 0x03, 0x93, 0x20, 0x08],
               [0x04, 0x08, 0x93, 0x70, b1 0, b1 1, b1 2, b1 3, b1 4, 0x28]]) \<and>
         (b1 0 = ISO14443A_CT \<longrightarrow>
            (\<forall>b2 n2 d4 s2 m2 d5.
               readResponse stack_u8 stack_buf 16 50 (sent (buildAnticollCL2 (txFrame d3)) d3)
                 = Some (True, CR95HF_RSP_DATA, b2, n2, d4) \<and> 5 \<le> unat n2 \<and>
               readResponse stack_u8 stack_buf 8 50
                   (sent (buildSelectCL2 (memcpy stack_buf b2 5) (txFrame d4)) d4)
                 = Some (True, CR95HF_RSP_DATA, s2, m2, d5) \<and> 1 \<le> unat m2 \<longrightarrow>
               iso14443aGetUID uid uidLen sakOut d =
                 Some (True, uid(0 := b1 1, 1 := b1 2, 2 := b1 3,
                                 3 := b2 0, 4 := b2 1, 5 := b2 2, 6 := b2 3), 7, s2 0, d5) \<and>
               port_tx d5 = port_tx d1 @
                 [[0x04, 0x03, 0x93, 0x20, 0x08],
                  [0x04, 0x08, 0x93, 0x70, b1 0, b1 1, b1 2, b1 3, b1 4, 0x28],
                  [0x04, 0x03, 0x95, 0x20, 0x08],
                  [0x04, 0x08, 0x95, 0x70, b2 0, b2 1, b2 2, b2 3, b2 4, 0x28]]))"
proof -
  define cl1 where "cl1 = memcpy stack_buf b1 5"
  note c1 = memcpy_first [of stack_buf b1, folded cl1_def]
  have a1: "anticollCL1 stack_buf (d1\<lparr>lastATQA := (atqa1, atqa2)\<rparr>) = Some (True, cl1, d2)"
    using anticollCL1_response [where d = "d1\<lparr>lastATQA := (atqa1, atqa2)\<rparr>" and g = True
        and c = CR95HF_RSP_DATA and b = b1 and n = n1 and d' = d2 and cl = stack_buf] ac1 n1
    by (simp add: cl1_def)
  have s1: "selectCL1 cl1 0 d2 = Some (True, s1 0, d3)"
    using selectCL1_response [OF sel1, where sak = 0] m1 by (simp add: cl1_def)
  have t2: "port_tx d2 = port_tx d1 @ [[0x04, 0x03, 0x93, 0x20, 0x08]]"
    using response_log(1) [OF ac1] by (simp add: frame_bytes_fixed)
  have t3: "port_tx d3 = port_tx d2 @
      [[0x04, 0x08, 0x93, 0x70, b1 0, b1 1, b1 2, b1 3, b1 4, 0x28]]"
    using response_log(1) [OF sel1] by (simp add: frame_bytes_fixed memcpy_first)
  have four: "iso14443aGetUID uid uidLen sakOut d =
      Some (True, uid(0 := b1 0, 1 := b1 1, 2 := b1 2, 3 := b1 3), 4, s1 0, d3)"
    if "b1 0 \<noteq> ISO14443A_CT"
    using that by (simp add: iso14443aGetUID_def wake a1 s1 c1)
  have seven: "iso14443aGetUID uid uidLen sakOut d =
        Some (True, uid(0 := b1 1, 1 := b1 2, 2 := b1 3,
                        3 := b2 0, 4 := b2 1, 5 := b2 2, 6 := b2 3), 7, s2 0, d5) \<and>
      port_tx d5 = port_tx d1 @
        [[0x04, 0x03, 0x93, 0x20, 0x08],
         [0x04, 0x08, 0x93, 0x70, b1 0, b1 1, b1 2, b1 3, b1 4, 0x28],
         [0x04, 0x03, 0x95, 0x20, 0x08],
         [0x04, 0x08, 0x95, 0x70, b2 0, b2 1, b2 2, b2 3, b2 4, 0x28]]"
    if ct: "b1 0 = ISO14443A_CT"
      and ac2: "readResponse stack_u8 stack_buf 16 50 (sent (buildAnticollCL2 (txFrame d3)) d3)
                 = Some (True, CR95HF_RSP_DATA, b2, n2, d4)" and n2: "5 \<le> unat n2"
      and sel2: "readResponse stack_u8 stack_buf 8 50
                   (sent (buildSelectCL2 (memcpy stack_buf b2 5) (txFrame d4)) d4)
                 = Some (True, CR95HF_RSP_DATA, s2, m2, d5)" and m2: "1 \<le> unat m2"
    for b2 n2 d4 s2 m2 d5
  proof -
    define cl2 where "cl2 = memcpy stack_buf b2 5"
    note c2 = memcpy_first [of stack_buf b2, folded cl2_def]
    have a2: "anticollCL2 stack_buf d3 = Some (True, cl2, d4)"
      using anticollCL2_response [OF ac2, where cl = stack_buf] n2 by (simp add: cl2_def)
    have s2: "selectCL2 cl2 0 d4 = Some (True, s2 0, d5)"
      using selectCL2_response [OF sel2, where sak = 0] m2 by (simp add: cl2_def)
    have t4: "port_tx d4 = port_tx d3 @ [[0x04, 0x03, 0x95, 0x20, 0x08]]"
      using response_log(1) [OF ac2] by (simp add: frame_bytes_fixed)
    have t5: "port_tx d5 = port_tx d4 @
        [[0x04, 0x08, 0x95, 0x70, b2 0, b2 1, b2 2, b2 3, b2 4, 0x28]]"
      using response_log(1) [OF sel2] by (simp add: frame_bytes_fixed memcpy_first)
    have "iso14443aGetUID uid uidLen sakOut d =
        Some (True, uid(0 := b1 1, 1 := b1 2, 2 := b1 3,
                        3 := b2 0, 4 := b2 1, 5 := b2 2, 6 := b2 3), 7, s2 0, d5)"
      proof -
      have ct': "cl1 0 = ISO14443A_CT" using ct by (simp add: c1)
      have "iso14443aGetUID uid uidLen sakOut d =
        Some (True, uid(0 := cl1 1, 1 := cl1 2, 2 := cl1 3,
                        3 := cl2 0, 4 := cl2 1, 5 := cl2 2, 6 := cl2 3), 7, s2 0, d5)"
        by (simp add: iso14443aGetUID_def Let_def wake a1 s1 a2 s2 ct')
      then show ?thesis by (simp only: c1 c2)
    qed
    then show ?thesis using t2 t3 t4 t5 by simp
  qed
  show ?thesis
  proof (intro conjI impI allI)
    assume "b1 0 \<noteq> ISO14443A_CT"
    then show "iso14443aGetUID uid uidLen sakOut d =
              Some (True, uid(0 := b1 0, 1 := b1 1, 2 := b1 2, 3 := b1 3), 4, s1 0, d3)"
      by (rule four)
    show "port_tx d3 = port_tx d1 @
              [[0x04, 0x03, 0x93, 0x20, 0x08],
               [0x04, 0x08, 0x93, 0x70, b1 0, b1 1, b1 2, b1 3, b1 4, 0x28]]"
      using t2 t3 by simp
  next
    fix b2 n2 d4 s2 m2 d5
    assume ct: "b1 0 = ISO14443A_CT"
      and h: "readResponse stack_u8 stack_buf 16 50 (sent (buildAnticollCL2 (txFrame d3)) d3)
                 = Some (True, CR95HF_RSP_DATA, b2, n2, d4) \<and> 5 \<le> unat n2 \<and>
               readResponse stack_u8 stack_buf 8 50
                   (sent (buildSelectCL2 (memcpy stack_buf b2 5) (txFrame d4)) d4)
                 = Some (True, CR95HF_RSP_DATA, s2, m2, d5) \<and> 1 \<le> unat m2"
    from h have h1: "readResponse stack_u8 stack_buf 16 50 (sent (buildAnticollCL2 (txFrame d3)) d3)
                 = Some (True, CR95HF_RSP_DATA, b2, n2, d4)" and h2: "5 \<le> unat n2"
      and h3: "readResponse stack_u8 stack_buf 8 50
                   (sent (buildSelectCL2 (memcpy stack_buf b2 5) (txFrame d4)) d4)
                 = Some (True, CR95HF_RSP_DATA, s2, m2, d5)" and h4: "1 \<le> unat m2"
      by simp_all
    note r = seven [OF ct h1 h2 h3 h4]
    from r show "iso14443aGetUID uid uidLen sakOut d =
                 Some (True, uid(0 := b1 1, 1 := b1 2, 2 := b1 3,
                                 3 := b2 0, 4 := b2 1, 5 := b2 2, 6 := b2 3), 7, s2 0, d5)"
      by (rule conjunct1)
    from r show "port_tx d5 = port_tx d1 @
                 [[0x04, 0x03, 0x93, 0x20, 0x08],
                  [0x04, 0x08, 0x93, 0x70, b1 0, b1 1, b1 2, b1 3, b1 4, 0x28],
                  [0x04, 0x03, 0x95, 0x20, 0x08],
                  [0x04, 0x08, 0x95, 0x70, b2 0, b2 1, b2 2, b2 3, b2 4, 0x28]]"
      by (rule conjunct2)
  qed
qed

theorem getUID_cascade_branch_witness:
  "(\<exists>d3. iso14443aGetUID stack_buf 0x55 0x55 (on_line line_single) =
        Some (True, stack_buf(0 := 0xDE, 1 := 0xAD, 2 := 0xBE, 3 := 0xEF), 4, 0x08, d3) \<and>
      port_tx d3 = [[0x04, 0x02, 0x52, 0x07], [0x04, 0x03, 0x93, 0x20, 0x08],
                    [0x04, 0x08, 0x93, 0x70, 0xDE, 0xAD, 0xBE, 0xEF, 0x22, 0x28]]) \<and>
   (\<exists>d5. iso14443aGetUID stack_buf 0x55 0x55 (on_line line_double) =
        Some (True, stack_buf(0 := 0x04, 1 := 0xA1, 2 := 0xB2,
                              3 := 0xC3, 4 := 0xD4, 5 := 0xE5, 6 := 0xF6), 7, 0x20, d5) \<and>
      port_tx d5 = [[0x04, 0x02, 0x52, 0x07], [0x04, 0x03, 0x93, 0x20, 0x08],
                    [0x04, 0x08, 0x93, 0x70, 0x88, 0x04, 0xA1, 0xB2, 0x9F, 0x28],
                    [0x04, 0x03, 0x95, 0x20, 0x08],
                    [0x04, 0x08, 0x95, 0x70, 0xC3, 0xD4, 0xE5, 0xF6, 0x04, 0x28]])"
proof -
  from run_single obtain d1 b1 d2 s1 d3 where
    w: "wakeUp (on_line line_single) = Some (True, 0x04, 0x00, d1)" and
    a: "readResponse stack_u8 stack_buf 16 50
          (sent (buildAnticollCL1 (txFrame d1)) (d1\<lparr>lastATQA := (0x04, 0x00)\<rparr>))
          = Some (True, CR95HF_RSP_DATA, b1, 5, d2)" and
    c: "map b1 [0..<5] = [0xDE, 0xAD, 0xBE, 0xEF, 0x22]" and
    s: "readResponse stack_u8 stack_buf 8 50
          (sent (buildSelectCL1 (memcpy stack_buf b1 5) (txFrame d2)) d2)
          = Some (True, CR95HF_RSP_DATA, s1, 1, d3)" and
    k: "s1 0 = 0x08"
    by (elim exE conjE)
  note b = first_bytes [OF c]
  have w0: "port_tx d1 = [[0x04, 0x02, 0x52, 0x07]]"
    using w by (simp add: step_defs line_single_def) auto
  have ct: "b1 0 \<noteq> ISO14443A_CT" by (simp add: b cr95hf_consts)
  from getUID_cascade_branch [OF w a _ s, where uid = stack_buf and uidLen = "0x55"
      and sakOut = "0x55"] ct
  have single: "\<exists>d3. iso14443aGetUID stack_buf 0x55 0x55 (on_line line_single) =
        Some (True, stack_buf(0 := 0xDE, 1 := 0xAD, 2 := 0xBE, 3 := 0xEF), 4, 0x08, d3) \<and>
      port_tx d3 = [[0x04, 0x02, 0x52, 0x07], [0x04, 0x03, 0x93, 0x20, 0x08],
                    [0x04, 0x08, 0x93, 0x70, 0xDE, 0xAD, 0xBE, 0xEF, 0x22, 0x28]]"
    by (simp add: b k w0)
  from run_double obtain e1 k1 e2 r1 e3 k2 e4 r2 e5 where
    w': "wakeUp (on_line line_double) = Some (True, 0x44, 0x00, e1)" and
    a': "readResponse stack_u8 stack_buf 16 50
          (sent (buildAnticollCL1 (txFrame e1)) (e1\<lparr>lastATQA := (0x44, 0x00)\<rparr>))
          = Some (True, CR95HF_RSP_DATA, k1, 5, e2)" and
    c': "map k1 [0..<5] = [0x88, 0x04, 0xA1, 0xB2, 0x9F]" and
    s': "readResponse stack_u8 stack_buf 8 50
          (sent (buildSelectCL1 (memcpy stack_buf k1 5) (txFrame e2)) e2)
          = Some (True, CR95HF_RSP_DATA, r1, 1, e3)" and
    a2: "readResponse stack_u8 stack_buf 16 50 (sent (buildAnticollCL2 (txFrame e3)) e3)
          = Some (True, CR95HF_RSP_DATA, k2, 5, e4)" and
    c2: "map k2 [0..<5] = [0xC3, 0xD4, 0xE5, 0xF6, 0x04]" and
    s2: "readResponse stack_u8 stack_buf 8 50
          (sent (buildSelectCL2 (memcpy stack_buf k2 5) (txFrame e4)) e4)
          = Some (True, CR95HF_RSP_DATA, r2, 1, e5)" and
    k': "r2 0 = 0x20"
    by (elim exE conjE)
  note b1 = first_bytes [OF c'] and b2 = first_bytes [OF c2]
  have w0': "port_tx e1 = [[0x04, 0x02, 0x52, 0x07]]"
    using w' by (simp add: step_defs line_double_def) auto
  have ct': "k1 0 = ISO14443A_CT" by (simp add: b1 cr95hf_consts)
  from getUID_cascade_branch [OF w' a' _ s', where uid = stack_buf and uidLen = "0x55"
      and sakOut = "0x55"] ct' a2 s2
  have double: "\<exists>d5. iso14443aGetUID stack_buf 0x55 0x55 (on_line line_double) =
        Some (True, stack_buf(0 := 0x04, 1 := 0xA1, 2 := 0xB2,
                              3 := 0xC3, 4 := 0xD4, 5 := 0xE5, 6 := 0xF6), 7, 0x20, d5) \<and>
      port_tx d5 = [[0x04, 0x02, 0x52, 0x07], [0x04, 0x03, 0x93, 0x20, 0x08],
                    [0x04, 0x08, 0x93, 0x70, 0x88, 0x04, 0xA1, 0xB2, 0x9F, 0x28],
                    [0x04, 0x03, 0x95, 0x20, 0x08],
                    [0x04, 0x08, 0x95, 0x70, 0xC3, 0xD4, 0xE5, 0xF6, 0x04, 0x28]]"
    by (simp add: b1 b2 k' w0')
  show ?thesis using single double by (rule conjI)
qed

text \<open>
  Claim C4. Name the responses read in the WUPA exchange, in a REQA exchange after
  it, and in the cascade-1 anticollision and select exchanges after that. A response
  is a valid ATQA response when it was read, has the data status and has at least 2
  payload bytes. The first frame a discovery call writes is the WUPA frame
  \<open>04 02 52 07\<close>. If the WUPA response is a valid ATQA response, the wake stage ends
  there with that ATQA, and the second frame of the call is the cascade-1
  anticollision frame: no REQA frame. If it is not, the REQA frame \<open>04 02 26 07\<close>
  is written next. If the REQA response is no valid ATQA response either, the call
  returns false with only these two frames written: no anticollision exchange. If the
  REQA response is a valid ATQA response, the wake stage succeeds with its ATQA, the
  next frame is the cascade-1 anticollision frame, and the call succeeds when the
  anticollision and select responses are good (shown here for a single-size tag).
\<close>

theorem wake_fallback:
  assumes wupa: "readResponse stack_u8 stack_buf 16 20 (sent (buildWUPA (txFrame d)) d)
                 = Some (g1, c1, b1, n1, d1)"
    and reqa: "readResponse stack_u8 stack_buf 16 20 (sent (buildREQA (txFrame d1)) d1)
               = Some (g2, c2, b2, n2, d2)"
    and ac1: "readResponse stack_u8 stack_buf 16 50
                (sent (buildAnticollCL1 (txFrame d2)) (d2\<lparr>lastATQA := (b2 0, b2 1)\<rparr>))
              = Some (g3, c3, b3, n3, d3)"
    and sel1: "readResponse stack_u8 stack_buf 8 50
                 (sent (buildSelectCL1 (memcpy stack_buf b3 5) (txFrame d3)) d3)
               = Some (g4, c4, b4, n4, d4)"
  shows "port_tx d1 = port_tx d @ [[0x04, 0x02, 0x52, 0x07]] \<and>
     (atqa_response g1 c1 n1 \<longrightarrow>
        wakeUp d = Some (True, b1 0, b1 1, d1) \<and>
        (\<exists>ok uid' n s d'. iso14443aGetUID uid uidLen sakOut d = Some (ok, uid', n, s, d') \<and>
           take (length (port_tx d) + 2) (port_tx d') =
             port_tx d @ [[0x04, 0x02, 0x52, 0x07], [0x04, 0x03, 0x93, 0x20, 0x08]])) \<and>
     (\<not> atqa_response g1 c1 n1 \<longrightarrow>
        port_tx d2 = port_tx d @ [[0x04, 0x02, 0x52, 0x07], [0x04, 0x02, 0x26, 0x07]] \<and>
        (\<not> atqa_response g2 c2 n2 \<longrightarrow>
           iso14443aGetUID uid uidLen sakOut d = Some (False, uid, 0, 0, d2)) \<and>
        (atqa_response g2 c2 n2 \<longrightarrow>
           wakeUp d = Some (True, b2 0, b2 1, d2) \<and>
           port_tx d3 = port_tx d @
             [[0x04, 0x02, 0x52, 0x07], [0x04, 0x02, 0x26, 0x07], [0x04, 0x03, 0x93, 0x20, 0x08]] \<and>
           (g3 \<and> c3 = CR95HF_RSP_DATA \<and> 5 \<le> unat n3 \<and>
            g4 \<and> c4 = CR95HF_RSP_DATA \<and> 1 \<le> unat n4 \<and> b3 0 \<noteq> ISO14443A_CT \<longrightarrow>
              iso14443aGetUID uid uidLen sakOut d =
                Some (True, uid(0 := b3 0, 1 := b3 1, 2 := b3 2, 3 := b3 3), 4, b4 0, d4))))"
proof -
  define v1 where "v1 = atqa_response g1 c1 n1"
  define v2 where "v2 = atqa_response g2 c2 n2"
  have t1: "port_tx d1 = port_tx d @ [[0x04, 0x02, 0x52, 0x07]]"
    using response_log(1) [OF wupa] by (simp add: frame_bytes_fixed)
  have t2: "port_tx d2 = port_tx d1 @ [[0x04, 0x02, 0x26, 0x07]]"
    using response_log(1) [OF reqa] by (simp add: frame_bytes_fixed)
  have t3: "port_tx d3 = port_tx d2 @ [[0x04, 0x03, 0x93, 0x20, 0x08]]"
    using response_log(1) [OF ac1] by (simp add: frame_bytes_fixed)
  have s1: "sendReqWup ISO14443A_WUPA 0 0 d =
      Some (if v1 then (True, b1 0, b1 1, d1) else (False, 0, 0, d1))"
    using sendReqWup_response [where cmd = ISO14443A_WUPA and d = d and g = g1 and c = c1
        and b = b1 and n = n1 and d' = d1 and ?atqa1.0 = 0 and ?atqa2.0 = 0] wupa
    by (simp add: v1_def)
  have s2: "sendReqWup ISO14443A_REQA 0 0 d1 =
      Some (if v2 then (True, b2 0, b2 1, d2) else (False, 0, 0, d2))"
    using sendReqWup_response [where cmd = ISO14443A_REQA and d = d1 and g = g2 and c = c2
        and b = b2 and n = n2 and d' = d2 and ?atqa1.0 = 0 and ?atqa2.0 = 0] reqa
    by (simp add: v2_def cr95hf_consts)
  have w1: "wakeUp d = Some (True, b1 0, b1 1, d1)" if v1
    using that by (simp add: wakeUp_def s1)
  have w2: "wakeUp d = Some (if v2 then (True, b2 0, b2 1, d2) else (False, 0, 0, d2))" if "\<not> v1"
    using that by (simp add: wakeUp_def s1 s2)
  have first: "\<exists>ok uid' n s d'. iso14443aGetUID uid uidLen sakOut d = Some (ok, uid', n, s, d') \<and>
      take (length (port_tx d) + 2) (port_tx d') =
        port_tx d @ [[0x04, 0x02, 0x52, 0x07], [0x04, 0x03, 0x93, 0x20, 0x08]]" if v1
  proof -
    from getUID_after_wake [OF w1 [OF that], of uid uidLen sakOut]
    obtain ok uid' n s d' where r: "iso14443aGetUID uid uidLen sakOut d = Some (ok, uid', n, s, d')"
      and t: "take (Suc (length (port_tx d1))) (port_tx d')
               = port_tx d1 @ [[0x04, 0x03, 0x93, 0x20, 0x08]]"
      by blast
    have "take (length (port_tx d) + 2) (port_tx d') =
        port_tx d @ [[0x04, 0x02, 0x52, 0x07], [0x04, 0x03, 0x93, 0x20, 0x08]]"
      using t by (simp add: t1)
    with r show ?thesis by blast
  qed
  have none: "iso14443aGetUID uid uidLen sakOut d = Some (False, uid, 0, 0, d2)"
    if "\<not> v1" "\<not> v2"
    using that by (simp add: iso14443aGetUID_def w2)
  have a1: "anticollCL1 stack_buf (d2\<lparr>lastATQA := (b2 0, b2 1)\<rparr>) =
      Some (True, memcpy stack_buf b3 5, d3)"
    if "g3" "c3 = CR95HF_RSP_DATA" "5 \<le> unat n3"
    using anticollCL1_response [where d = "d2\<lparr>lastATQA := (b2 0, b2 1)\<rparr>" and g = g3
        and c = c3 and b = b3 and n = n3 and d' = d3 and cl = stack_buf] ac1 that
    by simp
  have k1: "selectCL1 (memcpy stack_buf b3 5) 0 d3 = Some (True, b4 0, d4)"
    if "g4" "c4 = CR95HF_RSP_DATA" "1 \<le> unat n4"
    using selectCL1_response [OF sel1, where sak = 0] that by simp
  have good: "iso14443aGetUID uid uidLen sakOut d =
      Some (True, uid(0 := b3 0, 1 := b3 1, 2 := b3 2, 3 := b3 3), 4, b4 0, d4)"
    if "\<not> v1" "v2" "g3" "c3 = CR95HF_RSP_DATA" "5 \<le> unat n3"
      "g4" "c4 = CR95HF_RSP_DATA" "1 \<le> unat n4" "b3 0 \<noteq> ISO14443A_CT"
    using that(1,2,9)
    by (simp add: iso14443aGetUID_def w2 a1 [OF that(3,4,5), unfolded One_nat_def]
        k1 [OF that(6,7,8)] memcpy_first)
  show ?thesis
    unfolding v1_def [symmetric] v2_def [symmetric]
  proof (intro conjI impI)
    show "port_tx d1 = port_tx d @ [[0x04, 0x02, 0x52, 0x07]]" by (rule t1)
    show "wakeUp d = Some (True, b1 0, b1 1, d1)" if v1 using that by (rule w1)
    show "\<exists>ok uid' n s d'. iso14443aGetUID uid uidLen sakOut d = Some (ok, uid', n, s, d') \<and>
      take (length (port_tx d) + 2) (port_tx d') =
        port_tx d @ [[0x04, 0x02, 0x52, 0x07], [0x04, 0x03, 0x93, 0x20, 0x08]]" if v1
      using that by (rule first)
    show "port_tx d2 = port_tx d @ [[0x04, 0x02, 0x52, 0x07], [0x04, 0x02, 0x26, 0x07]]"
      using t1 t2 by simp
    show "iso14443aGetUID uid uidLen sakOut d = Some (False, uid, 0, 0, d2)"
      if "\<not> v1" "\<not> v2" using that by (rule none)
    show "wakeUp d = Some (True, b2 0, b2 1, d2)" if "\<not> v1" "v2"
      using w2 [OF that(1)] that(2) by simp
    show "port_tx d3 = port_tx d @
        [[0x04, 0x02, 0x52, 0x07], [0x04, 0x02, 0x26, 0x07], [0x04, 0x03, 0x93, 0x20, 0x08]]"
      using t1 t2 t3 by simp
    show "iso14443aGetUID uid uidLen sakOut d =
        Some (True, uid(0 := b3 0, 1 := b3 1, 2 := b3 2, 3 := b3 3), 4, b4 0, d4)"
      if "\<not> v1" "v2" "g3 \<and> c3 = CR95HF_RSP_DATA \<and> 5 \<le> unat n3 \<and>
            g4 \<and> c4 = CR95HF_RSP_DATA \<and> 1 \<le> unat n4 \<and> b3 0 \<noteq> ISO14443A_CT"
      using that(3) by (intro good [OF that(1,2)]) simp_all
  qed
qed

theorem wake_fallback_witness:
  "(\<exists>d2 (d3 :: cr95hf) d4.
      wakeUp (on_line line_fallback) = Some (True, 0x04, 0x00, d2) \<and>
      port_tx d2 = [[0x04, 0x02, 0x52, 0x07], [0x04, 0x02, 0x26, 0x07]] \<and>
      port_tx d3 = [[0x04, 0x02, 0x52, 0x07], [0x04, 0x02, 0x26, 0x07],
                    [0x04, 0x03, 0x93, 0x20, 0x08]] \<and>
      iso14443aGetUID stack_buf 0x55 0x55 (on_line line_fallback) =
        Some (True, stack_buf(0 := 0xDE, 1 := 0xAD, 2 := 0xBE, 3 := 0xEF), 4, 0x08, d4)) \<and>
   (\<exists>b1 d1 d2 (d3 :: cr95hf) d4.
      readResponse stack_u8 stack_buf 16 20
        (sent (buildWUPA (txFrame (on_line line_wupa_short))) (on_line line_wupa_short))
        = Some (True, CR95HF_RSP_DATA, b1, 1, d1) \<and>
      wakeUp (on_line line_wupa_short) = Some (True, 0x04, 0x00, d2) \<and>
      port_tx d2 = [[0x04, 0x02, 0x52, 0x07], [0x04, 0x02, 0x26, 0x07]] \<and>
      port_tx d3 = [[0x04, 0x02, 0x52, 0x07], [0x04, 0x02, 0x26, 0x07],
                    [0x04, 0x03, 0x93, 0x20, 0x08]] \<and>
      iso14443aGetUID stack_buf 0x55 0x55 (on_line line_wupa_short) =
        Some (True, stack_buf(0 := 0xDE, 1 := 0xAD, 2 := 0xBE, 3 := 0xEF), 4, 0x08, d4)) \<and>
   (\<exists>b1 d1 d2 (d3 :: cr95hf) d4.
      readResponse stack_u8 stack_buf 16 20
        (sent (buildWUPA (txFrame (on_line line_wupa_not_data))) (on_line line_wupa_not_data))
        = Some (True, 0x90, b1, 2, d1) \<and>
      wakeUp (on_line line_wupa_not_data) = Some (True, 0x04, 0x00, d2) \<and>
      port_tx d2 = [[0x04, 0x02, 0x52, 0x07], [0x04, 0x02, 0x26, 0x07]] \<and>
      port_tx d3 = [[0x04, 0x02, 0x52, 0x07], [0x04, 0x02, 0x26, 0x07],
                    [0x04, 0x03, 0x93, 0x20, 0x08]] \<and>
      iso14443aGetUID stack_buf 0x55 0x55 (on_line line_wupa_not_data) =
        Some (True, stack_buf(0 := 0xDE, 1 := 0xAD, 2 := 0xBE, 3 := 0xEF), 4, 0x08, d4)) \<and>
   (\<exists>d2.
      port_tx d2 = [[0x04, 0x02, 0x52, 0x07], [0x04, 0x02, 0x26, 0x07]] \<and>
      iso14443aGetUID stack_buf 0x55 0x55 (on_line line_no_tag) = Some (False, stack_buf, 0, 0, d2)) \<and>
   (\<exists>d1.
      port_tx d1 = [[0x04, 0x02, 0x52, 0x07]] \<and>
      wakeUp (on_line line_single) = Some (True, 0x04, 0x00, d1) \<and>
      (\<exists>ok uid' n s d'.
         iso14443aGetUID stack_buf 0x55 0x55 (on_line line_single) = Some (ok, uid', n, s, d') \<and>
         take 2 (port_tx d') = [[0x04, 0x02, 0x52, 0x07], [0x04, 0x03, 0x93, 0x20, 0x08]]))"
proof -
  have tx0: "port_tx (on_line xs) = []" for xs
    by (simp add: on_line_def fresh_driver_def)
  have fallback: "\<exists>d2 (d3 :: cr95hf) d4.
      wakeUp (on_line xs) = Some (True, 0x04, 0x00, d2) \<and>
      port_tx d2 = [[0x04, 0x02, 0x52, 0x07], [0x04, 0x02, 0x26, 0x07]] \<and>
      port_tx d3 = [[0x04, 0x02, 0x52, 0x07], [0x04, 0x02, 0x26, 0x07],
                    [0x04, 0x03, 0x93, 0x20, 0x08]] \<and>
      iso14443aGetUID stack_buf 0x55 0x55 (on_line xs) =
        Some (True, stack_buf(0 := 0xDE, 1 := 0xAD, 2 := 0xBE, 3 := 0xEF), 4, 0x08, d4)"
    if w: "readResponse stack_u8 stack_buf 16 20 (sent (buildWUPA (txFrame (on_line xs))) (on_line xs))
             = Some (True, c1, b1, n1, d1)"
      and nv: "\<not> atqa_response True c1 n1"
      and q: "readResponse stack_u8 stack_buf 16 20 (sent (buildREQA (txFrame d1)) d1)
             = Some (True, CR95HF_RSP_DATA, b2, 2, d2)"
      and atqa: "b2 0 = 0x04" "b2 1 = 0x00"
      and a: "readResponse stack_u8 stack_buf 16 50
               (sent (buildAnticollCL1 (txFrame d2)) (d2\<lparr>lastATQA := (b2 0, b2 1)\<rparr>))
             = Some (True, CR95HF_RSP_DATA, b3, 5, d3)"
      and c: "map b3 [0..<5] = [0xDE, 0xAD, 0xBE, 0xEF, 0x22]"
      and s: "readResponse stack_u8 stack_buf 8 50
               (sent (buildSelectCL1 (memcpy stack_buf b3 5) (txFrame d3)) d3)
             = Some (True, CR95HF_RSP_DATA, b4, 1, d4)"
      and k: "b4 0 = 0x08"
    for xs c1 b1 n1 d1 b2 d2 b3 d3 b4 d4
  proof -
    note b = first_bytes [OF c]
    have v2: "atqa_response True CR95HF_RSP_DATA 2" by (simp add: atqa_response_def)
    have ct: "b3 0 \<noteq> ISO14443A_CT" by (simp add: b cr95hf_consts)
    from wake_fallback [OF w q a s, where uid = stack_buf and uidLen = "0x55" and sakOut = "0x55"]
      nv v2 ct
    have f: "wakeUp (on_line xs) = Some (True, 0x04, 0x00, d2)"
      "port_tx d2 = [[0x04, 0x02, 0x52, 0x07], [0x04, 0x02, 0x26, 0x07]]"
      "port_tx d3 = [[0x04, 0x02, 0x52, 0x07], [0x04, 0x02, 0x26, 0x07],
                    [0x04, 0x03, 0x93, 0x20, 0x08]]"
      "iso14443aGetUID stack_buf 0x55 0x55 (on_line xs) =
        Some (True, stack_buf(0 := 0xDE, 1 := 0xAD, 2 := 0xBE, 3 := 0xEF), 4, 0x08, d4)"
      by (simp_all add: b k atqa atqa(2) [unfolded One_nat_def] tx0)
    show ?thesis by (intro exI conjI) (rule f(1), rule f(2), rule f(3), rule f(4))
  qed
  from run_fallback obtain b1 d1 b2 d2 b3 d3 b4 d4 where
    r: "readResponse stack_u8 stack_buf 16 20
         (sent (buildWUPA (txFrame (on_line line_fallback))) (on_line line_fallback))
         = Some (True, 0x87, b1, 0, d1)"
      "readResponse stack_u8 stack_buf 16 20 (sent (buildREQA (txFrame d1)) d1)
         = Some (True, CR95HF_RSP_DATA, b2, 2, d2)"
      "b2 0 = 0x04" "b2 1 = 0x00"
      "readResponse stack_u8 stack_buf 16 50
         (sent (buildAnticollCL1 (txFrame d2)) (d2\<lparr>lastATQA := (b2 0, b2 1)\<rparr>))
         = Some (True, CR95HF_RSP_DATA, b3, 5, d3)"
      "map b3 [0..<5] = [0xDE, 0xAD, 0xBE, 0xEF, 0x22]"
      "readResponse stack_u8 stack_buf 8 50
         (sent (buildSelectCL1 (memcpy stack_buf b3 5) (txFrame d3)) d3)
         = Some (True, CR95HF_RSP_DATA, b4, 1, d4)"
      "b4 0 = 0x08"
    by (elim exE conjE)
  have "\<not> atqa_response True 0x87 0" by (simp add: atqa_response_def cr95hf_consts)
  from fallback [OF r(1) this r(2-8)]
  have i1: "\<exists>d2 (d3 :: cr95hf) d4.
      wakeUp (on_line line_fallback) = Some (True, 0x04, 0x00, d2) \<and>
      port_tx d2 = [[0x04, 0x02, 0x52, 0x07], [0x04, 0x02, 0x26, 0x07]] \<and>
      port_tx d3 = [[0x04, 0x02, 0x52, 0x07], [0x04, 0x02, 0x26, 0x07],
                    [0x04, 0x03, 0x93, 0x20, 0x08]] \<and>
      iso14443aGetUID stack_buf 0x55 0x55 (on_line line_fallback) =
        Some (True, stack_buf(0 := 0xDE, 1 := 0xAD, 2 := 0xBE, 3 := 0xEF), 4, 0x08, d4)" .
  from run_wupa_short obtain b1 d1 b2 d2 b3 d3 b4 d4 where
    r: "readResponse stack_u8 stack_buf 16 20
         (sent (buildWUPA (txFrame (on_line line_wupa_short))) (on_line line_wupa_short))
         = Some (True, CR95HF_RSP_DATA, b1, 1, d1)"
      "readResponse stack_u8 stack_buf 16 20 (sent (buildREQA (txFrame d1)) d1)
         = Some (True, CR95HF_RSP_DATA, b2, 2, d2)"
      "b2 0 = 0x04" "b2 1 = 0x00"
      "readResponse stack_u8 stack_buf 16 50
         (sent (buildAnticollCL1 (txFrame d2)) (d2\<lparr>lastATQA := (b2 0, b2 1)\<rparr>))
         = Some (True, CR95HF_RSP_DATA, b3, 5, d3)"
      "map b3 [0..<5] = [0xDE, 0xAD, 0xBE, 0xEF, 0x22]"
      "readResponse stack_u8 stack_buf 8 50
         (sent (buildSelectCL1 (memcpy stack_buf b3 5) (txFrame d3)) d3)
         = Some (True, CR95HF_RSP_DATA, b4, 1, d4)"
      "b4 0 = 0x08"
    by (elim exE conjE)
  have "\<not> atqa_response True CR95HF_RSP_DATA 1" by (simp add: atqa_response_def)
  from fallback [OF r(1) this r(2-8)] obtain x2 and x3 :: cr95hf and x4 where
    f: "wakeUp (on_line line_wupa_short) = Some (True, 0x04, 0x00, x2)"
      "port_tx x2 = [[0x04, 0x02, 0x52, 0x07], [0x04, 0x02, 0x26, 0x07]]"
      "port_tx x3 = [[0x04, 0x02, 0x52, 0x07], [0x04, 0x02, 0x26, 0x07],
                    [0x04, 0x03, 0x93, 0x20, 0x08]]"
      "iso14443aGetUID stack_buf 0x55 0x55 (on_line line_wupa_short) =
        Some (True, stack_buf(0 := 0xDE, 1 := 0xAD, 2 := 0xBE, 3 := 0xEF), 4, 0x08, x4)"
    by (elim exE conjE)
  have i2: "\<exists>b1 d1 d2 (d3 :: cr95hf) d4.
      readResponse stack_u8 stack_buf 16 20
        (sent (buildWUPA (txFrame (on_line line_wupa_short))) (on_line line_wupa_short))
        = Some (True, CR95HF_RSP_DATA, b1, 1, d1) \<and>
      wakeUp (on_line line_wupa_short) = Some (True, 0x04, 0x00, d2) \<and>
      port_tx d2 = [[0x04, 0x02, 0x52, 0x07], [0x04, 0x02, 0x26, 0x07]] \<and>
      port_tx d3 = [[0x04, 0x02, 0x52, 0x07], [0x04, 0x02, 0x26, 0x07],
                    [0x04, 0x03, 0x93, 0x20, 0x08]] \<and>
      iso14443aGetUID stack_buf 0x55 0x55 (on_line line_wupa_short) =
        Some (True, stack_buf(0 := 0xDE, 1 := 0xAD, 2 := 0xBE, 3 := 0xEF), 4, 0x08, d4)"
    by (intro exI conjI) (rule r(1), rule f(1), rule f(2), rule f(3), rule f(4))
  from run_wupa_not_data obtain b1 d1 b2 d2 b3 d3 b4 d4 where
    r: "readResponse stack_u8 stack_buf 16 20
         (sent (buildWUPA (txFrame (on_line line_wupa_not_data))) (on_line line_wupa_not_data))
         = Some (True, 0x90, b1, 2, d1)"
      "readResponse stack_u8 stack_buf 16 20 (sent (buildREQA (txFrame d1)) d1)
         = Some (True, CR95HF_RSP_DATA, b2, 2, d2)"
      "b2 0 = 0x04" "b2 1 = 0x00"
      "readResponse stack_u8 stack_buf 16 50
         (sent (buildAnticollCL1 (txFrame d2)) (d2\<lparr>lastATQA := (b2 0, b2 1)\<rparr>))
         = Some (True, CR95HF_RSP_DATA, b3, 5, d3)"
      "map b3 [0..<5] = [0xDE, 0xAD, 0xBE, 0xEF, 0x22]"
      "readResponse stack_u8 stack_buf 8 50
         (sent (buildSelectCL1 (memcpy stack_buf b3 5) (txFrame d3)) d3)
         = Some (True, CR95HF_RSP_DATA, b4, 1, d4)"
      "b4 0 = 0x08"
    by (elim exE conjE)
  have "\<not> atqa_response True 0x90 2" by (simp add: atqa_response_def cr95hf_consts)
  from fallback [OF r(1) this r(2-8)] obtain y2 and y3 :: cr95hf and y4 where
    f: "wakeUp (on_line line_wupa_not_data) = Some (True, 0x04, 0x00, y2)"
      "port_tx y2 = [[0x04, 0x02, 0x52, 0x07], [0x04, 0x02, 0x26, 0x07]]"
      "port_tx y3 = [[0x04, 0x02, 0x52, 0x07], [0x04, 0x02, 0x26, 0x07],
                    [0x04, 0x03, 0x93, 0x20, 0x08]]"
      "iso14443aGetUID stack_buf 0x55 0x55 (on_line line_wupa_not_data) =
        Some (True, stack_buf(0 := 0xDE, 1 := 0xAD, 2 := 0xBE, 3 := 0xEF), 4, 0x08, y4)"
    by (elim exE conjE)
  have i3: "\<exists>b1 d1 d2 (d3 :: cr95hf) d4.
      readResponse stack_u8 stack_buf 16 20
        (sent (buildWUPA (txFrame (on_line line_wupa_not_data))) (on_line line_wupa_not_data))
        = Some (True, 0x90, b1, 2, d1) \<and>
      wakeUp (on_line line_wupa_not_data) = Some (True, 0x04, 0x00, d2) \<and>
      port_tx d2 = [[0x04, 0x02, 0x52, 0x07], [0x04, 0x02, 0x26, 0x07]] \<and>
      port_tx d3 = [[0x04, 0x02, 0x52, 0x07], [0x04, 0x02, 0x26, 0x07],
                    [0x04, 0x03, 0x93, 0x20, 0x08]] \<and>
      iso14443aGetUID stack_buf 0x55 0x55 (on_line line_wupa_not_data) =
        Some (True, stack_buf(0 := 0xDE, 1 := 0xAD, 2 := 0xBE, 3 := 0xEF), 4, 0x08, d4)"
    by (intro exI conjI) (rule r(1), rule f(1), rule f(2), rule f(3), rule f(4))
  from run_no_tag obtain e1 f1 e2 f2 where
    w': "readResponse stack_u8 stack_buf 16 20
          (sent (buildWUPA (txFrame (on_line line_no_tag))) (on_line line_no_tag))
          = Some (True, 0x87, e1, 0, f1)" and
    q': "readResponse stack_u8 stack_buf 16 20 (sent (buildREQA (txFrame f1)) f1)
          = Some (True, 0x87, e2, 0, f2)"
    by (elim exE conjE)
  obtain g3 c3 e3 n3 f3 where a': "readResponse stack_u8 stack_buf 16 50
      (sent (buildAnticollCL1 (txFrame f2)) (f2\<lparr>lastATQA := (e2 0, e2 1)\<rparr>))
      = Some (g3, c3, e3, n3, f3)"
    using readResponse_total [OF timeouts_bounded(2)] by blast
  obtain g4 c4 e4 n4 f4 where s': "readResponse stack_u8 stack_buf 8 50
      (sent (buildSelectCL1 (memcpy stack_buf e3 5) (txFrame f3)) f3)
      = Some (g4, c4, e4, n4, f4)"
    using readResponse_total [OF timeouts_bounded(2)] by blast
  have nv: "\<not> atqa_response True 0x87 0" by (simp add: atqa_response_def cr95hf_consts)
  from wake_fallback [OF w' q' a' s', where uid = stack_buf and uidLen = "0x55" and sakOut = "0x55"]
    nv
  have f: "port_tx f2 = [[0x04, 0x02, 0x52, 0x07], [0x04, 0x02, 0x26, 0x07]]"
    "iso14443aGetUID stack_buf 0x55 0x55 (on_line line_no_tag) = Some (False, stack_buf, 0, 0, f2)"
    by (simp_all add: tx0)
  have i4: "\<exists>d2.
      port_tx d2 = [[0x04, 0x02, 0x52, 0x07], [0x04, 0x02, 0x26, 0x07]] \<and>
      iso14443aGetUID stack_buf 0x55 0x55 (on_line line_no_tag) = Some (False, stack_buf, 0, 0, d2)"
    by (intro exI conjI) (rule f(1), rule f(2))
  from run_wupa_answers obtain h1 j1 where
    w'': "readResponse stack_u8 stack_buf 16 20
          (sent (buildWUPA (txFrame (on_line line_single))) (on_line line_single))
          = Some (True, CR95HF_RSP_DATA, h1, 2, j1)" and
    atqa: "h1 0 = 0x04" "h1 1 = 0x00"
    by (elim exE conjE)
  obtain g2 c2 h2 n2 j2 where q'': "readResponse stack_u8 stack_buf 16 20
      (sent (buildREQA (txFrame j1)) j1) = Some (g2, c2, h2, n2, j2)"
    using readResponse_total [OF timeouts_bounded(1)] by blast
  obtain g3' c3' h3 n3' j3 where a'': "readResponse stack_u8 stack_buf 16 50
      (sent (buildAnticollCL1 (txFrame j2)) (j2\<lparr>lastATQA := (h2 0, h2 1)\<rparr>))
      = Some (g3', c3', h3, n3', j3)"
    using readResponse_total [OF timeouts_bounded(2)] by blast
  obtain g4' c4' h4 n4' j4 where s'': "readResponse stack_u8 stack_buf 8 50
      (sent (buildSelectCL1 (memcpy stack_buf h3 5) (txFrame j3)) j3)
      = Some (g4', c4', h4, n4', j4)"
    using readResponse_total [OF timeouts_bounded(2)] by blast
  have v: "atqa_response True CR95HF_RSP_DATA 2" by (simp add: atqa_response_def)
  from wake_fallback [OF w'' q'' a'' s'', where uid = stack_buf and uidLen = "0x55" and sakOut = "0x55"]
    v
  have f: "port_tx j1 = [[0x04, 0x02, 0x52, 0x07]]"
    "wakeUp (on_line line_single) = Some (True, 0x04, 0x00, j1)"
    "\<exists>ok uid' n s d'.
         iso14443aGetUID stack_buf 0x55 0x55 (on_line line_single) = Some (ok, uid', n, s, d') \<and>
         take 2 (port_tx d') = [[0x04, 0x02, 0x52, 0x07], [0x04, 0x03, 0x93, 0x20, 0x08]]"
    by (simp_all add: tx0 atqa atqa(2) [unfolded One_nat_def] numeral_2_eq_2)
  have i5: "\<exists>d1.
      port_tx d1 = [[0x04, 0x02, 0x52, 0x07]] \<and>
      wakeUp (on_line line_single) = Some (True, 0x04, 0x00, d1) \<and>
      (\<exists>ok uid' n s d'.
         iso14443aGetUID stack_buf 0x55 0x55 (on_line line_single) = Some (ok, uid', n, s, d') \<and>
         take 2 (port_tx d') = [[0x04, 0x02, 0x52, 0x07], [0x04, 0x03, 0x93, 0x20, 0x08]])"
    by (intro exI [of _ j1] conjI) (rule f(1), rule f(2), rule f(3))
  show ?thesis
    by (intro conjI) (rule i1, rule i2, rule i3, rule i4, rule i5)
qed

text \<open>
  Claim C5. After a successful wake stage, if the response to the cascade-1
  anticollision frame has the data status and fewer than 5 payload bytes, the call
  returns false at once, in the state in which that response was read: the last frame
  written is the anticollision frame, and no select frame follows it.
\<close>

theorem anticoll_short_response_aborts:
  assumes wake: "wakeUp d = Some (True, atqa1, atqa2, d1)"
    and resp: "readResponse stack_u8 stack_buf 16 50
                 (sent (buildAnticollCL1 (txFrame d1)) (d1\<lparr>lastATQA := (atqa1, atqa2)\<rparr>))
               = Some (True, CR95HF_RSP_DATA, buf, n, d2)"
    and short: "unat n < 5"
  shows "iso14443aGetUID uid uidLen sakOut d = Some (False, uid, 0, 0, d2) \<and>
         port_tx d2 = port_tx d1 @ [[0x04, 0x03, 0x93, 0x20, 0x08]]"
proof -
  have "n < 5" using short by (simp add: word_less_nat_alt)
  then have "anticollCL1 stack_buf (d1\<lparr>lastATQA := (atqa1, atqa2)\<rparr>) = Some (False, stack_buf, d2)"
    using resp by (simp add: anticollCL1_sent)
  moreover have "port_tx d2 = port_tx d1 @ [[0x04, 0x03, 0x93, 0x20, 0x08]]"
    using response_log(1) [OF resp] by (simp add: frame_bytes_fixed)
  ultimately show ?thesis by (simp add: iso14443aGetUID_def wake)
qed

theorem anticoll_short_response_aborts_witness:
  "\<exists>a1 a2 d1 buf n d2.
     wakeUp (on_line line_short_anticoll) = Some (True, a1, a2, d1) \<and>
     readResponse stack_u8 stack_buf 16 50
       (sent (buildAnticollCL1 (txFrame d1)) (d1\<lparr>lastATQA := (a1, a2)\<rparr>))
       = Some (True, CR95HF_RSP_DATA, buf, n, d2) \<and>
     unat n < 5 \<and>
     iso14443aGetUID stack_buf 0 0 (on_line line_short_anticoll) =
       Some (False, stack_buf, 0, 0, d2) \<and>
     port_tx d2 = [[0x04, 0x02, 0x52, 0x07], [0x04, 0x03, 0x93, 0x20, 0x08]]"
proof -
  from run_short_anticoll obtain d1 buf d2 where
    w: "wakeUp (on_line line_short_anticoll) = Some (True, 0x04, 0x00, d1)" and
    r: "readResponse stack_u8 stack_buf 16 50
          (sent (buildAnticollCL1 (txFrame d1)) (d1\<lparr>lastATQA := (0x04, 0x00)\<rparr>))
          = Some (True, CR95HF_RSP_DATA, buf, 3, d2)"
    by (elim exE conjE)
  have n: "unat (3 :: u8) < 5" by simp
  have w0: "port_tx d1 = [[0x04, 0x02, 0x52, 0x07]]"
    using w by (simp add: step_defs line_short_anticoll_def) auto
  from anticoll_short_response_aborts [OF w r n, of stack_buf 0 0]
  have "iso14443aGetUID stack_buf 0 0 (on_line line_short_anticoll) =
       Some (False, stack_buf, 0, 0, d2)"
    and "port_tx d2 = [[0x04, 0x02, 0x52, 0x07], [0x04, 0x03, 0x93, 0x20, 0x08]]"
    by (simp_all add: w0)
  then show ?thesis using w r n by blast
qed

text \<open>
  Claim C6. If the response to a select frame, of cascade level 1 or 2, carries no
  payload byte, the select step returns false, whatever the status code of the
  response is.
\<close>

theorem select_empty_response_fails:
  "(readResponse stack_u8 stack_buf 8 50 (sent (buildSelectCL1 cl (txFrame d)) d)
      = Some (got, code, buf, 0, d') \<longrightarrow> selectCL1 cl sak d = Some (False, sak, d')) \<and>
   (readResponse stack_u8 stack_buf 8 50 (sent (buildSelectCL2 cl (txFrame d)) d)
      = Some (got, code, buf, 0, d') \<longrightarrow> selectCL2 cl sak d = Some (False, sak, d'))"
  by (simp add: selectCL1_sent selectCL2_sent)

theorem select_empty_response_fails_witness:
  "(\<exists>buf d'.
      readResponse stack_u8 stack_buf 8 50
        (sent (buildSelectCL1 stack_buf (txFrame (on_line [(1, 0x80), (1, 0x00)])))
           (on_line [(1, 0x80), (1, 0x00)]))
        = Some (True, CR95HF_RSP_DATA, buf, 0, d') \<and>
      selectCL1 stack_buf 0x55 (on_line [(1, 0x80), (1, 0x00)]) = Some (False, 0x55, d')) \<and>
   (\<exists>buf d'.
      readResponse stack_u8 stack_buf 8 50
        (sent (buildSelectCL2 stack_buf (txFrame (on_line [(1, 0x00), (1, 0x00)])))
           (on_line [(1, 0x00), (1, 0x00)]))
        = Some (True, CR95HF_RSP_SUCCESS, buf, 0, d') \<and>
      selectCL2 stack_buf 0x55 (on_line [(1, 0x00), (1, 0x00)]) = Some (False, 0x55, d'))"
proof -
  have "\<exists>buf d'. readResponse stack_u8 stack_buf 8 50
        (sent (buildSelectCL1 stack_buf (txFrame (on_line [(1, 0x80), (1, 0x00)])))
           (on_line [(1, 0x80), (1, 0x00)]))
        = Some (True, CR95HF_RSP_DATA, buf, 0, d')"
    by (simp add: step_defs)
  then obtain buf d' where r1: "readResponse stack_u8 stack_buf 8 50
        (sent (buildSelectCL1 stack_buf (txFrame (on_line [(1, 0x80), (1, 0x00)])))
           (on_line [(1, 0x80), (1, 0x00)]))
        = Some (True, CR95HF_RSP_DATA, buf, 0, d')"
    by (elim exE)
  have "\<exists>buf d'. readResponse stack_u8 stack_buf 8 50
        (sent (buildSelectCL2 stack_buf (txFrame (on_line [(1, 0x00), (1, 0x00)])))
           (on_line [(1, 0x00), (1, 0x00)]))
        = Some (True, CR95HF_RSP_SUCCESS, buf, 0, d')"
    by (simp add: step_defs)
  then obtain buf2 e' where r2: "readResponse stack_u8 stack_buf 8 50
        (sent (buildSelectCL2 stack_buf (txFrame (on_line [(1, 0x00), (1, 0x00)])))
           (on_line [(1, 0x00), (1, 0x00)]))
        = Some (True, CR95HF_RSP_SUCCESS, buf2, 0, e')"
    by (elim exE)
  from select_empty_response_fails
    [where cl = stack_buf and d = "on_line [(1, 0x80), (1, 0x00)]" and got = True
      and code = CR95HF_RSP_DATA and buf = buf and d' = d' and sak = "0x55"] r1
  have s1: "selectCL1 stack_buf 0x55 (on_line [(1, 0x80), (1, 0x00)]) = Some (False, 0x55, d')"
    by blast
  from select_empty_response_fails
    [where cl = stack_buf and d = "on_line [(1, 0x00), (1, 0x00)]" and got = True
      and code = CR95HF_RSP_SUCCESS and buf = buf2 and d' = e' and sak = "0x55"] r2
  have s2: "selectCL2 stack_buf 0x55 (on_line [(1, 0x00), (1, 0x00)]) = Some (False, 0x55, e')"
    by blast
  show ?thesis using r1 s1 r2 s2 by blast
qed

text \<open>
  Claim C8. After a successful wake stage, a cascade-1 anticollision response with
  the data status and 5 payload bytes is accepted whatever its fifth byte is: the
  anticollision step returns true with those 5 bytes as the candidate, the next frame
  written is the select frame \<open>04 08 93 70 b0 b1 b2 b3 b4 28\<close> carrying all five
  bytes unchanged, the discovery call contains that select exchange, and its result
  is decided by the select step alone. Nothing is assumed about the check byte.
\<close>

theorem anticoll_candidate_unchecked:
  assumes wake: "wakeUp d = Some (True, atqa1, atqa2, d1)"
    and resp: "readResponse stack_u8 stack_buf 16 50
                 (sent (buildAnticollCL1 (txFrame d1)) (d1\<lparr>lastATQA := (atqa1, atqa2)\<rparr>))
               = Some (True, CR95HF_RSP_DATA, buf, 5, d2)"
    and sel1: "selectCL1 (memcpy stack_buf buf 5) 0 d2 = Some (ok4, sak1, d3)"
  shows "anticollCL1 stack_buf (d1\<lparr>lastATQA := (atqa1, atqa2)\<rparr>)
           = Some (True, memcpy stack_buf buf 5, d2) \<and>
         port_tx d3 = port_tx d2 @
           [[0x04, 0x08, 0x93, 0x70, buf 0, buf 1, buf 2, buf 3, buf 4, 0x28]] \<and>
         (\<exists>ok uid' n s d'. iso14443aGetUID uid uidLen sakOut d = Some (ok, uid', n, s, d') \<and>
            take (length (port_tx d3)) (port_tx d') = port_tx d3) \<and>
         (\<not> ok4 \<longrightarrow> iso14443aGetUID uid uidLen sakOut d = Some (False, uid, 0, 0, d3)) \<and>
         (ok4 \<and> buf 0 \<noteq> ISO14443A_CT \<longrightarrow>
            iso14443aGetUID uid uidLen sakOut d =
              Some (True, uid(0 := buf 0, 1 := buf 1, 2 := buf 2, 3 := buf 3), 4, sak1, d3))"
proof -
  define cl1 where "cl1 = memcpy stack_buf buf 5"
  have cl: "cl1 0 = buf 0" "cl1 1 = buf 1" "cl1 2 = buf 2" "cl1 3 = buf 3" "cl1 4 = buf 4"
    and cl': "cl1 (Suc 0) = buf (Suc 0)"
    by (simp_all add: cl1_def memcpy_def)
  have ac1: "anticollCL1 stack_buf (d1\<lparr>lastATQA := (atqa1, atqa2)\<rparr>) = Some (True, cl1, d2)"
    using resp by (simp add: anticollCL1_sent cl1_def cr95hf_consts)
  have sel1': "selectCL1 cl1 0 d2 = Some (ok4, sak1, d3)"
    using sel1 by (simp add: cl1_def)
  have "port_tx d3 = port_tx d2 @
      [[0x04, 0x08, 0x93, 0x70, cl1 0, cl1 1, cl1 2, cl1 3, cl1 4, 0x28]]"
    using selectCL1_step [of cl1 0 d2] sel1' by auto
  then have t3: "port_tx d3 = port_tx d2 @
      [[0x04, 0x08, 0x93, 0x70, buf 0, buf 1, buf 2, buf 3, buf 4, 0x28]]"
    by (simp only: cl)
  obtain ok5 cl2 d4 where ac2: "anticollCL2 stack_buf d3 = Some (ok5, cl2, d4)"
    and t4: "port_tx d4 = port_tx d3 @ [[0x04, 0x03, 0x95, 0x20, 0x08]]"
    using anticollCL2_step [of stack_buf d3] by auto
  obtain ok6 sak2 d5 where sel2: "selectCL2 cl2 0 d4 = Some (ok6, sak2, d5)"
    and t5: "port_tx d5 = port_tx d4 @
        [[0x04, 0x08, 0x95, 0x70, cl2 0, cl2 1, cl2 2, cl2 3, cl2 4, 0x28]]"
    using selectCL2_step [of cl2 0 d4] by auto
  have ex: "\<exists>ok uid' n s d'. iso14443aGetUID uid uidLen sakOut d = Some (ok, uid', n, s, d') \<and>
      take (length (port_tx d3)) (port_tx d') = port_tx d3"
    using t4 t5
    by (auto simp: iso14443aGetUID_def Let_def wake ac1 sel1' ac2 sel2)
  have f: "\<not> ok4 \<Longrightarrow> iso14443aGetUID uid uidLen sakOut d = Some (False, uid, 0, 0, d3)"
    by (simp add: iso14443aGetUID_def wake ac1 sel1')
  have s: "ok4 \<Longrightarrow> buf 0 \<noteq> ISO14443A_CT \<Longrightarrow> iso14443aGetUID uid uidLen sakOut d =
      Some (True, uid(0 := buf 0, 1 := buf 1, 2 := buf 2, 3 := buf 3), 4, sak1, d3)"
    by (simp add: iso14443aGetUID_def wake ac1 sel1' cl cl')
  show ?thesis using ac1 t3 ex f s by (simp add: cl1_def)
qed

theorem anticoll_candidate_unchecked_witness:
  "\<exists>a1 a2 d1 buf d2 d3.
     wakeUp (on_line line_bad_bcc) = Some (True, a1, a2, d1) \<and>
     readResponse stack_u8 stack_buf 16 50
       (sent (buildAnticollCL1 (txFrame d1)) (d1\<lparr>lastATQA := (a1, a2)\<rparr>))
       = Some (True, CR95HF_RSP_DATA, buf, 5, d2) \<and>
     buf 4 \<noteq> buf 0 XOR buf 1 XOR buf 2 XOR buf 3 \<and>
     selectCL1 (memcpy stack_buf buf 5) 0 d2 = Some (True, 0x08, d3) \<and>
     port_tx d3 = port_tx d2 @ [[0x04, 0x08, 0x93, 0x70, 0xDE, 0xAD, 0xBE, 0xEF, 0x00, 0x28]] \<and>
     iso14443aGetUID stack_buf 0 0 (on_line line_bad_bcc) =
       Some (True, stack_buf(0 := 0xDE, 1 := 0xAD, 2 := 0xBE, 3 := 0xEF), 4, 0x08, d3)"
proof -
  from run_bad_bcc obtain d1 buf d2 d3 where
    w: "wakeUp (on_line line_bad_bcc) = Some (True, 0x04, 0x00, d1)" and
    r: "readResponse stack_u8 stack_buf 16 50
          (sent (buildAnticollCL1 (txFrame d1)) (d1\<lparr>lastATQA := (0x04, 0x00)\<rparr>))
          = Some (True, CR95HF_RSP_DATA, buf, 5, d2)" and
    c: "map buf [0..<5] = [0xDE, 0xAD, 0xBE, 0xEF, 0x00]" and
    s: "selectCL1 (memcpy stack_buf buf 5) 0 d2 = Some (True, 0x08, d3)"
    by (elim exE conjE)
  note b = first_bytes [OF c]
  have x: "buf 4 \<noteq> buf 0 XOR buf 1 XOR buf 2 XOR buf 3" by (simp add: b)
  have ct: "buf 0 \<noteq> ISO14443A_CT" by (simp add: b cr95hf_consts)
  from anticoll_candidate_unchecked [OF w r s, where uid = stack_buf and uidLen = 0 and sakOut = 0] ct
  have "port_tx d3 = port_tx d2 @ [[0x04, 0x08, 0x93, 0x70, 0xDE, 0xAD, 0xBE, 0xEF, 0x00, 0x28]]"
    and "iso14443aGetUID stack_buf 0 0 (on_line line_bad_bcc) =
       Some (True, stack_buf(0 := 0xDE, 1 := 0xAD, 2 := 0xBE, 3 := 0xEF), 4, 0x08, d3)"
    by (simp_all add: b)
  then show ?thesis using w r x s by blast
qed

text \<open>
  Claim C9, as the code has it. Name the responses read in the WUPA exchange and in a
  REQA exchange after it; a response is a valid ATQA response when it was read, has
  the data status and has at least 2 payload bytes. If neither response is a valid
  ATQA response, \<open>iso14443aGetUID\<close> returns false right after the REQA exchange,
  with \<open>uidLen = 0\<close> and \<open>sak = 0\<close>, and \<open>lastATQA\<close> is what it was before the
  call. If one of them is, WUPA first, the first two payload bytes of that response
  are written to \<open>lastATQA\<close> before the anticollision, and whatever the outcomes of
  the anticollision and select steps that follow, the call returns true exactly when
  they succeed, in the state left by the last step it ran, where \<open>lastATQA\<close> holds
  those two bytes.
\<close>

theorem lastATQA_after_call:
  assumes wupa: "readResponse stack_u8 stack_buf 16 20 (sent (buildWUPA (txFrame d)) d)
                 = Some (g1, c1, b1, n1, d1)"
    and reqa: "readResponse stack_u8 stack_buf 16 20 (sent (buildREQA (txFrame d1)) d1)
               = Some (g2, c2, b2, n2, d2)"
    and woke: "dw = (if atqa_response g1 c1 n1 then d1 else d2)"
    and atqa: "a = (if atqa_response g1 c1 n1 then (b1 0, b1 1) else (b2 0, b2 1))"
    and ac1: "anticollCL1 stack_buf (dw\<lparr>lastATQA := a\<rparr>) = Some (ok3, cl1, d3)"
    and sel1: "selectCL1 cl1 0 d3 = Some (ok4, sak1, d4)"
    and ac2: "anticollCL2 stack_buf d4 = Some (ok5, cl2, d5)"
    and sel2: "selectCL2 cl2 0 d5 = Some (ok6, sak2, d6)"
    and fin: "dfin = (if \<not> ok3 then d3 else if \<not> ok4 \<or> cl1 0 \<noteq> ISO14443A_CT then d4
                      else if \<not> ok5 then d5 else d6)"
  shows "(\<not> atqa_response g1 c1 n1 \<and> \<not> atqa_response g2 c2 n2 \<longrightarrow>
            iso14443aGetUID uid uidLen sakOut d = Some (False, uid, 0, 0, d2) \<and>
            lastATQA d2 = lastATQA d) \<and>
         (atqa_response g1 c1 n1 \<or> atqa_response g2 c2 n2 \<longrightarrow>
            (\<exists>uid' n s. iso14443aGetUID uid uidLen sakOut d =
               Some (ok3 \<and> ok4 \<and> (cl1 0 \<noteq> ISO14443A_CT \<or> ok5 \<and> ok6), uid', n, s, dfin)) \<and>
            lastATQA dfin = a)"
proof -
  define v1 where "v1 = atqa_response g1 c1 n1"
  define v2 where "v2 = atqa_response g2 c2 n2"
  have s1: "sendReqWup ISO14443A_WUPA 0 0 d =
      Some (if v1 then (True, b1 0, b1 1, d1) else (False, 0, 0, d1))"
    using sendReqWup_response [where cmd = ISO14443A_WUPA and d = d and g = g1 and c = c1
        and b = b1 and n = n1 and d' = d1 and ?atqa1.0 = 0 and ?atqa2.0 = 0] wupa
    by (simp add: v1_def)
  have s2: "sendReqWup ISO14443A_REQA 0 0 d1 =
      Some (if v2 then (True, b2 0, b2 1, d2) else (False, 0, 0, d2))"
    using sendReqWup_response [where cmd = ISO14443A_REQA and d = d1 and g = g2 and c = c2
        and b = b2 and n = n2 and d' = d2 and ?atqa1.0 = 0 and ?atqa2.0 = 0] reqa
    by (simp add: v2_def cr95hf_consts)
  have l1: "lastATQA d1 = lastATQA d" using response_log(2) [OF wupa] .
  have l2: "lastATQA d2 = lastATQA d" using response_log(2) [OF reqa] l1 by simp
  have none: "iso14443aGetUID uid uidLen sakOut d = Some (False, uid, 0, 0, d2)"
    if "\<not> v1" "\<not> v2"
    using that by (simp add: iso14443aGetUID_def wakeUp_def s1 s2)
  have w: "wakeUp d = Some (True, fst a, snd a, dw)" if "v1 \<or> v2"
    using that by (auto simp: wakeUp_def s1 s2 woke atqa v1_def [symmetric])
  have l3: "lastATQA d3 = a"
    using anticollCL1_step [of stack_buf "dw\<lparr>lastATQA := a\<rparr>"] ac1 by auto
  have l4: "lastATQA d4 = a"
    using selectCL1_step [of cl1 0 d3] sel1 l3 by auto
  have l5: "lastATQA d5 = a"
    using anticollCL2_step [of stack_buf d4] ac2 l4 by auto
  have l6: "lastATQA d6 = a"
    using selectCL2_step [of cl2 0 d5] sel2 l5 by auto
  have lfin: "lastATQA dfin = a"
    using l3 l4 l5 l6 by (simp add: fin)
  have some: "\<exists>uid' n s. iso14443aGetUID uid uidLen sakOut d =
      Some (ok3 \<and> ok4 \<and> (cl1 0 \<noteq> ISO14443A_CT \<or> ok5 \<and> ok6), uid', n, s, dfin)"
    if "v1 \<or> v2"
    by (auto simp: iso14443aGetUID_def Let_def w [OF that] ac1 sel1 ac2 sel2 fin)
  show ?thesis
    unfolding v1_def [symmetric] v2_def [symmetric]
  proof (intro conjI impI)
    assume nv: "\<not> v1 \<and> \<not> v2"
    then show "iso14443aGetUID uid uidLen sakOut d = Some (False, uid, 0, 0, d2)"
      by (intro none) simp_all
    show "lastATQA d2 = lastATQA d" by (rule l2)
  next
    assume "v1 \<or> v2"
    then show "\<exists>uid' n s. iso14443aGetUID uid uidLen sakOut d =
      Some (ok3 \<and> ok4 \<and> (cl1 0 \<noteq> ISO14443A_CT \<or> ok5 \<and> ok6), uid', n, s, dfin)"
      by (rule some)
    show "lastATQA dfin = a" by (rule lfin)
  qed
qed

theorem lastATQA_after_call_witness:
  "(\<exists>uid' n s d'.
      iso14443aGetUID stack_buf 0x55 0x55 ((on_line line_single)\<lparr>lastATQA := (0x44, 0x00)\<rparr>)
        = Some (True, uid', n, s, d') \<and> lastATQA d' = (0x04, 0x00)) \<and>
   (\<exists>d'.
      iso14443aGetUID stack_buf 0x55 0x55 ((on_line line_no_tag)\<lparr>lastATQA := (0x44, 0x00)\<rparr>)
        = Some (False, stack_buf, 0, 0, d') \<and> lastATQA d' = (0x44, 0x00)) \<and>
   (\<exists>uid' n s d'.
      iso14443aGetUID stack_buf 0x55 0x55 ((on_line line_fallback)\<lparr>lastATQA := (0x44, 0x00)\<rparr>)
        = Some (True, uid', n, s, d') \<and> lastATQA d' = (0x04, 0x00)) \<and>
   (\<exists>uid' n s d'.
      iso14443aGetUID stack_buf 0x55 0x55
          ((on_line line_short_anticoll)\<lparr>lastATQA := (0x44, 0x00)\<rparr>)
        = Some (False, uid', n, s, d') \<and> lastATQA d' = (0x04, 0x00))"
proof -
  have valid: "atqa_response True CR95HF_RSP_DATA 2" by (simp add: atqa_response_def)
  have invalid: "\<not> atqa_response True 0x87 0" by (simp add: atqa_response_def cr95hf_consts)
  have rest_reqa: "\<exists>g c b n d'. readResponse stack_u8 stack_buf 16 20
      (sent (buildREQA (txFrame d)) d) = Some (g, c, b, n, d')" for d
    using readResponse_total [OF timeouts_bounded(1)] by blast
  have rest_ac1: "\<exists>ok cl d'. anticollCL1 stack_buf d = Some (ok, cl, d')" for d
    using anticollCL1_step [of stack_buf d] by blast
  have rest_sel1: "\<exists>ok s d'. selectCL1 cl 0 d = Some (ok, s, d')" for cl d
    using selectCL1_step [of cl 0 d] by blast
  have rest_ac2: "\<exists>ok cl d'. anticollCL2 stack_buf d = Some (ok, cl, d')" for d
    using anticollCL2_step [of stack_buf d] by blast
  have rest_sel2: "\<exists>ok s d'. selectCL2 cl 0 d = Some (ok, s, d')" for cl d
    using selectCL2_step [of cl 0 d] by blast
  from run_stale_single obtain b1 d1 cl1 d3 d4 where
    w: "readResponse stack_u8 stack_buf 16 20
         (sent (buildWUPA (txFrame ((on_line line_single)\<lparr>lastATQA := (0x44, 0x00)\<rparr>)))
            ((on_line line_single)\<lparr>lastATQA := (0x44, 0x00)\<rparr>))
         = Some (True, CR95HF_RSP_DATA, b1, 2, d1)" and
    q: "b1 0 = 0x04" "b1 1 = 0x00" and
    a: "anticollCL1 stack_buf (d1\<lparr>lastATQA := (b1 0, b1 1)\<rparr>) = Some (True, cl1, d3)" and
    c: "cl1 0 = 0xDE" and
    s: "selectCL1 cl1 0 d3 = Some (True, 0x08, d4)"
    by (elim exE conjE)
  obtain g2 c2 b2 n2 d2 where r: "readResponse stack_u8 stack_buf 16 20
      (sent (buildREQA (txFrame d1)) d1) = Some (g2, c2, b2, n2, d2)"
    using rest_reqa [of d1] by (elim exE)
  obtain ok5 cl2 d5 where a2: "anticollCL2 stack_buf d4 = Some (ok5, cl2, d5)"
    using rest_ac2 [of d4] by (elim exE)
  obtain ok6 sak2 d6 where s2: "selectCL2 cl2 0 d5 = Some (ok6, sak2, d6)"
    using rest_sel2 [of cl2 d5] by (elim exE)
  have ct: "cl1 0 \<noteq> ISO14443A_CT" by (simp add: c cr95hf_consts)
  from lastATQA_after_call [OF w r _ _ a s a2 s2 refl, where uid = stack_buf
      and uidLen = "0x55" and sakOut = "0x55"] valid ct
  have "(\<exists>uid' n s.
      iso14443aGetUID stack_buf 0x55 0x55 ((on_line line_single)\<lparr>lastATQA := (0x44, 0x00)\<rparr>)
        = Some (True, uid', n, s, d4)) \<and> lastATQA d4 = (b1 0, b1 1)"
    by simp
  then have i1: "\<exists>uid' n s d'.
      iso14443aGetUID stack_buf 0x55 0x55 ((on_line line_single)\<lparr>lastATQA := (0x44, 0x00)\<rparr>)
        = Some (True, uid', n, s, d') \<and> lastATQA d' = (0x04, 0x00)"
    unfolding q by blast
  from run_stale_no_tag obtain e1 f1 e2 f2 where
    w': "readResponse stack_u8 stack_buf 16 20
         (sent (buildWUPA (txFrame ((on_line line_no_tag)\<lparr>lastATQA := (0x44, 0x00)\<rparr>)))
            ((on_line line_no_tag)\<lparr>lastATQA := (0x44, 0x00)\<rparr>))
         = Some (True, 0x87, e1, 0, f1)" and
    r': "readResponse stack_u8 stack_buf 16 20 (sent (buildREQA (txFrame f1)) f1)
         = Some (True, 0x87, e2, 0, f2)"
    by (elim exE conjE)
  obtain ok3' k1 f3 where
    a': "anticollCL1 stack_buf (f2\<lparr>lastATQA := (e2 0, e2 1)\<rparr>) = Some (ok3', k1, f3)"
    using rest_ac1 [of "f2\<lparr>lastATQA := (e2 0, e2 1)\<rparr>"] by (elim exE)
  obtain ok4' sk1 f4 where s': "selectCL1 k1 0 f3 = Some (ok4', sk1, f4)"
    using rest_sel1 [of k1 f3] by (elim exE)
  obtain ok5' k2 f5 where a2': "anticollCL2 stack_buf f4 = Some (ok5', k2, f5)"
    using rest_ac2 [of f4] by (elim exE)
  obtain ok6' sk2 f6 where s2': "selectCL2 k2 0 f5 = Some (ok6', sk2, f6)"
    using rest_sel2 [of k2 f5] by (elim exE)
  from lastATQA_after_call [OF w' r' _ _ a' s' a2' s2' refl, where uid = stack_buf
      and uidLen = "0x55" and sakOut = "0x55"] invalid
  have "iso14443aGetUID stack_buf 0x55 0x55 ((on_line line_no_tag)\<lparr>lastATQA := (0x44, 0x00)\<rparr>)
        = Some (False, stack_buf, 0, 0, f2) \<and> lastATQA f2 = (0x44, 0x00)"
    by (simp add: on_line_def fresh_driver_def)
  then have i2: "\<exists>d'.
      iso14443aGetUID stack_buf 0x55 0x55 ((on_line line_no_tag)\<lparr>lastATQA := (0x44, 0x00)\<rparr>)
        = Some (False, stack_buf, 0, 0, d') \<and> lastATQA d' = (0x44, 0x00)"
    by (rule exI)
  from run_stale_fallback obtain h1 j1 h2 j2 m1 j3 j4 where
    w'': "readResponse stack_u8 stack_buf 16 20
         (sent (buildWUPA (txFrame ((on_line line_fallback)\<lparr>lastATQA := (0x44, 0x00)\<rparr>)))
            ((on_line line_fallback)\<lparr>lastATQA := (0x44, 0x00)\<rparr>))
         = Some (True, 0x87, h1, 0, j1)" and
    r'': "readResponse stack_u8 stack_buf 16 20 (sent (buildREQA (txFrame j1)) j1)
         = Some (True, CR95HF_RSP_DATA, h2, 2, j2)" and
    q'': "h2 0 = 0x04" "h2 1 = 0x00" and
    a'': "anticollCL1 stack_buf (j2\<lparr>lastATQA := (h2 0, h2 1)\<rparr>) = Some (True, m1, j3)" and
    c'': "m1 0 = 0xDE" and
    s'': "selectCL1 m1 0 j3 = Some (True, 0x08, j4)"
    by (elim exE conjE)
  obtain ok5'' m2 j5 where a2'': "anticollCL2 stack_buf j4 = Some (ok5'', m2, j5)"
    using rest_ac2 [of j4] by (elim exE)
  obtain ok6'' sm2 j6 where s2'': "selectCL2 m2 0 j5 = Some (ok6'', sm2, j6)"
    using rest_sel2 [of m2 j5] by (elim exE)
  have ct'': "m1 0 \<noteq> ISO14443A_CT" by (simp add: c'' cr95hf_consts)
  from lastATQA_after_call [OF w'' r'' _ _ a'' s'' a2'' s2'' refl, where uid = stack_buf
      and uidLen = "0x55" and sakOut = "0x55"] valid invalid ct''
  have "(\<exists>uid' n s.
      iso14443aGetUID stack_buf 0x55 0x55 ((on_line line_fallback)\<lparr>lastATQA := (0x44, 0x00)\<rparr>)
        = Some (True, uid', n, s, j4)) \<and> lastATQA j4 = (h2 0, h2 1)"
    by simp
  then have i3: "\<exists>uid' n s d'.
      iso14443aGetUID stack_buf 0x55 0x55 ((on_line line_fallback)\<lparr>lastATQA := (0x44, 0x00)\<rparr>)
        = Some (True, uid', n, s, d') \<and> lastATQA d' = (0x04, 0x00)"
    unfolding q'' by blast
  from run_stale_short_anticoll obtain p1 t1 p3 t3 where
    w3: "readResponse stack_u8 stack_buf 16 20
         (sent (buildWUPA (txFrame ((on_line line_short_anticoll)\<lparr>lastATQA := (0x44, 0x00)\<rparr>)))
            ((on_line line_short_anticoll)\<lparr>lastATQA := (0x44, 0x00)\<rparr>))
         = Some (True, CR95HF_RSP_DATA, p1, 2, t1)" and
    q3: "p1 0 = 0x04" "p1 1 = 0x00" and
    a3: "anticollCL1 stack_buf (t1\<lparr>lastATQA := (p1 0, p1 1)\<rparr>) = Some (False, p3, t3)"
    by (elim exE conjE)
  obtain g2' c2' p2 n2' t2 where r3: "readResponse stack_u8 stack_buf 16 20
      (sent (buildREQA (txFrame t1)) t1) = Some (g2', c2', p2, n2', t2)"
    using rest_reqa [of t1] by (elim exE)
  obtain ok4 sp1 t4 where s3: "selectCL1 p3 0 t3 = Some (ok4, sp1, t4)"
    using rest_sel1 [of p3 t3] by (elim exE)
  obtain ok5a p5 t5 where a23: "anticollCL2 stack_buf t4 = Some (ok5a, p5, t5)"
    using rest_ac2 [of t4] by (elim exE)
  obtain ok6a sp2 t6 where s23: "selectCL2 p5 0 t5 = Some (ok6a, sp2, t6)"
    using rest_sel2 [of p5 t5] by (elim exE)
  from lastATQA_after_call [OF w3 r3 _ _ a3 s3 a23 s23 refl, where uid = stack_buf
      and uidLen = "0x55" and sakOut = "0x55"] valid
  have "(\<exists>uid' n s.
      iso14443aGetUID stack_buf 0x55 0x55
          ((on_line line_short_anticoll)\<lparr>lastATQA := (0x44, 0x00)\<rparr>)
        = Some (False, uid', n, s, t3)) \<and> lastATQA t3 = (p1 0, p1 1)"
    by simp
  then have i4: "\<exists>uid' n s d'.
      iso14443aGetUID stack_buf 0x55 0x55
          ((on_line line_short_anticoll)\<lparr>lastATQA := (0x44, 0x00)\<rparr>)
        = Some (False, uid', n, s, d') \<and> lastATQA d' = (0x04, 0x00)"
    unfolding q3 by blast
  show ?thesis
    by (intro conjI) (rule i1, rule i2, rule i3, rule i4)
qed

text \<open>
  Claim C9 as stated fails: with \<open>44 00\<close> left in \<open>lastATQA\<close> by an earlier attempt
  and no tag answering either wake command, the call returns false and \<open>lastATQA\<close>
  is still \<open>44 00\<close>.
\<close>

theorem lastATQA_stale_counterexample:
  "iso14443aGetUID stack_buf 0 0 ((on_line line_no_tag)\<lparr>lastATQA := (0x44, 0x00)\<rparr>) =
     Some (False, stack_buf, 0, 0,
       fresh_driver\<lparr>lastATQA := (0x44, 0x00), txFrame := buildREQA (buildWUPA new_Frame),
         clock_ms := 2, port_tx := [[0x04, 0x02, 0x52, 0x07], [0x04, 0x02, 0x26, 0x07]]\<rparr>)"
  by (simp add: iso14443aGetUID_def step_defs line_no_tag_def)

text \<open>
  Claim C10. If the discovery enters cascade level 2 (the wake stage and the cascade-1
  steps succeed and the first candidate byte is \<open>0x88\<close>) and the cascade-2
  anticollision or the cascade-2 select then fails, \<open>iso14443aGetUID\<close> returns false
  with \<open>uidLen = 0\<close> and \<open>sak = 0\<close>, and the caller's uid buffer has bytes 0 to 2
  overwritten with bytes 1 to 3 of the cascade-1 candidate (its other bytes are
  unchanged).
\<close>

theorem cascade2_failure_leaves_uid_prefix:
  assumes wake: "wakeUp d = Some (True, atqa1, atqa2, d1)"
    and ac1: "anticollCL1 stack_buf (d1\<lparr>lastATQA := (atqa1, atqa2)\<rparr>) = Some (True, cl1, d2)"
    and sel1: "selectCL1 cl1 0 d2 = Some (True, sak1, d3)"
    and ct: "cl1 0 = ISO14443A_CT"
    and ac2: "anticollCL2 stack_buf d3 = Some (ok5, cl2, d4)"
    and sel2: "selectCL2 cl2 0 d4 = Some (ok6, sak2, d5)"
    and failed: "\<not> ok5 \<or> \<not> ok6"
  shows "iso14443aGetUID uid uidLen sakOut d =
           Some (False, uid(0 := cl1 1, 1 := cl1 2, 2 := cl1 3), 0, 0, if ok5 then d5 else d4)"
  using failed by (auto simp: iso14443aGetUID_def Let_def wake ac1 sel1 ct ac2 sel2)

theorem cascade2_failure_leaves_uid_prefix_witness:
  "(\<exists>a1 a2 d1 cl1 d2 sak1 d3 cl2 d4.
      wakeUp (on_line line_anticoll2_fails) = Some (True, a1, a2, d1) \<and>
      anticollCL1 stack_buf (d1\<lparr>lastATQA := (a1, a2)\<rparr>) = Some (True, cl1, d2) \<and>
      selectCL1 cl1 0 d2 = Some (True, sak1, d3) \<and>
      cl1 0 = ISO14443A_CT \<and>
      anticollCL2 stack_buf d3 = Some (False, cl2, d4) \<and>
      iso14443aGetUID stack_buf 0x55 0x55 (on_line line_anticoll2_fails) =
        Some (False, stack_buf(0 := 0x04, 1 := 0xA1, 2 := 0xB2), 0, 0, d4)) \<and>
   (\<exists>a1 a2 d1 cl1 d2 sak1 d3 cl2 d4 sak2 d5.
      wakeUp (on_line line_select2_fails) = Some (True, a1, a2, d1) \<and>
      anticollCL1 stack_buf (d1\<lparr>lastATQA := (a1, a2)\<rparr>) = Some (True, cl1, d2) \<and>
      selectCL1 cl1 0 d2 = Some (True, sak1, d3) \<and>
      cl1 0 = ISO14443A_CT \<and>
      anticollCL2 stack_buf d3 = Some (True, cl2, d4) \<and>
      selectCL2 cl2 0 d4 = Some (False, sak2, d5) \<and>
      iso14443aGetUID stack_buf 0x55 0x55 (on_line line_select2_fails) =
        Some (False, stack_buf(0 := 0x04, 1 := 0xA1, 2 := 0xB2), 0, 0, d5))"
proof -
  from run_anticoll2_fails obtain d1 cl1 d2 d3 cl2 d4 where
    w: "wakeUp (on_line line_anticoll2_fails) = Some (True, 0x44, 0x00, d1)" and
    a: "anticollCL1 stack_buf (d1\<lparr>lastATQA := (0x44, 0x00)\<rparr>) = Some (True, cl1, d2)" and
    c: "map cl1 [0..<5] = [0x88, 0x04, 0xA1, 0xB2, 0x9F]" and
    s: "selectCL1 cl1 0 d2 = Some (True, 0x04, d3)" and
    a2: "anticollCL2 stack_buf d3 = Some (False, cl2, d4)"
    by (elim exE conjE)
  note b = first_bytes [OF c]
  have ct: "cl1 0 = ISO14443A_CT" by (simp add: b cr95hf_consts)
  obtain ok6 sak2 d5 where s2: "selectCL2 cl2 0 d4 = Some (ok6, sak2, d5)"
    using selectCL2_step [of cl2 0 d4] by auto
  from cascade2_failure_leaves_uid_prefix [OF w a s ct a2 s2, where uid = stack_buf
      and uidLen = "0x55" and sakOut = "0x55"]
  have r: "iso14443aGetUID stack_buf 0x55 0x55 (on_line line_anticoll2_fails) =
        Some (False, stack_buf(0 := 0x04, 1 := 0xA1, 2 := 0xB2), 0, 0, d4)"
    by (simp add: b)
  have first: "\<exists>a1 a2 d1 cl1 d2 sak1 d3 cl2 d4.
      wakeUp (on_line line_anticoll2_fails) = Some (True, a1, a2, d1) \<and>
      anticollCL1 stack_buf (d1\<lparr>lastATQA := (a1, a2)\<rparr>) = Some (True, cl1, d2) \<and>
      selectCL1 cl1 0 d2 = Some (True, sak1, d3) \<and>
      cl1 0 = ISO14443A_CT \<and>
      anticollCL2 stack_buf d3 = Some (False, cl2, d4) \<and>
      iso14443aGetUID stack_buf 0x55 0x55 (on_line line_anticoll2_fails) =
        Some (False, stack_buf(0 := 0x04, 1 := 0xA1, 2 := 0xB2), 0, 0, d4)"
    using w a s ct a2 r by blast
  from run_select2_fails obtain e1 k1 e2 e3 k2 e4 e5 where
    w': "wakeUp (on_line line_select2_fails) = Some (True, 0x44, 0x00, e1)" and
    a': "anticollCL1 stack_buf (e1\<lparr>lastATQA := (0x44, 0x00)\<rparr>) = Some (True, k1, e2)" and
    c': "map k1 [0..<5] = [0x88, 0x04, 0xA1, 0xB2, 0x9F]" and
    s': "selectCL1 k1 0 e2 = Some (True, 0x04, e3)" and
    a2': "anticollCL2 stack_buf e3 = Some (True, k2, e4)" and
    s2': "selectCL2 k2 0 e4 = Some (False, 0, e5)"
    by (elim exE conjE)
  note b' = first_bytes [OF c']
  have ct': "k1 0 = ISO14443A_CT" by (simp add: b' cr95hf_consts)
  from cascade2_failure_leaves_uid_prefix [OF w' a' s' ct' a2' s2', where uid = stack_buf
      and uidLen = "0x55" and sakOut = "0x55"]
  have r': "iso14443aGetUID stack_buf 0x55 0x55 (on_line line_select2_fails) =
        Some (False, stack_buf(0 := 0x04, 1 := 0xA1, 2 := 0xB2), 0, 0, e5)"
    by (simp add: b')
  have second: "\<exists>a1 a2 d1 cl1 d2 sak1 d3 cl2 d4 sak2 d5.
      wakeUp (on_line line_select2_fails) = Some (True, a1, a2, d1) \<and>
      anticollCL1 stack_buf (d1\<lparr>lastATQA := (a1, a2)\<rparr>) = Some (True, cl1, d2) \<and>
      selectCL1 cl1 0 d2 = Some (True, sak1, d3) \<and>
      cl1 0 = ISO14443A_CT \<and>
      anticollCL2 stack_buf d3 = Some (True, cl2, d4) \<and>
      selectCL2 cl2 0 d4 = Some (False, sak2, d5) \<and>
      iso14443aGetUID stack_buf 0x55 0x55 (on_line line_select2_fails) =
        Some (False, stack_buf(0 := 0x04, 1 := 0xA1, 2 := 0xB2), 0, 0, d5)"
    using w' a' s' ct' a2' s2' r' by blast
  show ?thesis using first second by (rule conjI)
qed

end
